theory Spec2Isabelle
  imports Complex_Main "HOL-Library.Log_Nat"
begin

section \<open>JavaScript values\<close>

text \<open>
  The tools receive and produce plain JavaScript values. A number is an IEEE 754 double:
  \<open>Fin r\<close> is the finite double whose exact value is the rational \<open>r\<close>, and the three
  non-finite values are separate constructors. Arithmetic rounds its exact result to the
  nearest double (\<open>round64\<close> below). The sign of zero is outside this model.
\<close>

datatype number = Fin rat | NaN | PosInfinity | NegInfinity

text \<open>
  A value as \<open>JSON.parse\<close> builds it, together with \<open>undefined\<close>. An object is an
  association list in insertion order; a property read takes the first binding of a key.
\<close>

datatype json =
    JUndefined
  | JNull
  | JBool bool
  | JNum number
  | JStr string
  | JArr "json list"
  | JObj "(string \<times> json) list"

text \<open>
  A thrown value: an instance of \<open>Error\<close> with its \<open>message\<close>, or anything else.
\<close>

datatype thrown = Error string | NonError

text \<open>Sequencing of computations that may throw: the first throw wins.\<close>

definition bindE :: "thrown + 'a \<Rightarrow> ('a \<Rightarrow> thrown + 'b) \<Rightarrow> thrown + 'b" where
  "bindE m f = (case m of Inl e \<Rightarrow> Inl e | Inr x \<Rightarrow> f x)"

subsection \<open>Validation issues of the schema library\<close>

datatype path_elem = Key string | Index nat

datatype zod_code =
    invalid_type
  | invalid_enum_value
  | invalid_union_discriminator
  | too_small

datatype zod_issue = ZodIssue zod_code "path_elem list"

subsection \<open>What the host supplies\<close>

text \<open>
  Texts and coercions that the JavaScript engine and the schema library define, and the
  sources of this repository do not: the message of a validation error, the message of
  an engine \<open>TypeError\<close> (by receiver and member name), the text \<open>toString\<close> gives
  a finite number that is not an integer of magnitude at most \<open>2^53\<close>, and \<open>ToNumber\<close>
  on strings, arrays and objects. Every function of the model takes them as a parameter.
\<close>

record runtime =
  zodMessage :: "zod_issue list \<Rightarrow> string"
  typeErrorMessage :: "json \<Rightarrow> string \<Rightarrow> string"
  numberToString :: "rat \<Rightarrow> string"
  toNumberOther :: "json \<Rightarrow> thrown + number"

subsection \<open>Number operations\<close>

text \<open>
  Rounding to binary64, to nearest and ties to even. \<open>binade x\<close> is the exponent \<open>e\<close>
  with \<open>2^e \<le> |x| < 2^(e+1)\<close>, found from the bit lengths of numerator and denominator;
  the spacing of the doubles around \<open>x\<close> is \<open>2^(e - 52)\<close>, or \<open>2^(-1074)\<close> in the
  subnormal range; a result of magnitude \<open>2^1024\<close> or more is an infinity.
\<close>

definition round_half_even :: "rat \<Rightarrow> int" where
  "round_half_even y =
     (let f = \<lfloor>y\<rfloor>; r = y - of_int f
      in if r < 1 / 2 then f else if 1 / 2 < r then f + 1 else if even f then f else f + 1)"

definition binade :: "rat \<Rightarrow> int" where
  "binade x =
     (let a = fst (quotient_of \<bar>x\<bar>); b = snd (quotient_of \<bar>x\<bar>);
          k = bitlen a - bitlen b
      in if 2 powi k \<le> \<bar>x\<bar> then k else k - 1)"

definition quantum :: "rat \<Rightarrow> rat" where
  "quantum x = 2 powi (max (binade x) (- 1022) - 52)"

definition overflow_threshold :: rat where
  "overflow_threshold = 2 ^ 1024"

definition round64 :: "rat \<Rightarrow> number" where
  "round64 x =
     (if x = 0 then Fin 0
      else (let y = of_int (round_half_even (x / quantum x)) * quantum x
            in if overflow_threshold \<le> \<bar>y\<bar> then (if 0 < x then PosInfinity else NegInfinity)
               else Fin y))"

definition num_sign :: "number \<Rightarrow> int" where
  "num_sign x = (case x of Fin a \<Rightarrow> (if a < 0 then - 1 else if a = 0 then 0 else 1)
     | NaN \<Rightarrow> 0 | PosInfinity \<Rightarrow> 1 | NegInfinity \<Rightarrow> - 1)"

definition signed_infinity :: "int \<Rightarrow> number" where
  "signed_infinity s = (if s = 0 then NaN else if 0 < s then PosInfinity else NegInfinity)"

text \<open>\<open>x * y\<close>: the exact product of two finite doubles, rounded.\<close>

definition num_times :: "number \<Rightarrow> number \<Rightarrow> number" where
  "num_times x y =
     (case x of
        NaN \<Rightarrow> NaN
      | Fin a \<Rightarrow> (case y of Fin b \<Rightarrow> round64 (a * b) | NaN \<Rightarrow> NaN
                   | _ \<Rightarrow> signed_infinity (num_sign x * num_sign y))
      | _ \<Rightarrow> (case y of NaN \<Rightarrow> NaN | _ \<Rightarrow> signed_infinity (num_sign x * num_sign y)))"

text \<open>
  \<open>x / d\<close> for a finite non-zero constant \<open>d\<close>, the only division the tools perform:
  the exact quotient, rounded.
\<close>

definition num_divide :: "number \<Rightarrow> rat \<Rightarrow> number" where
  "num_divide x d =
     (case x of
        Fin a \<Rightarrow> round64 (a / d)
      | NaN \<Rightarrow> NaN
      | _ \<Rightarrow> signed_infinity (num_sign x * (if d < 0 then - 1 else 1)))"

text \<open>\<open>a > b\<close> on numbers: false whenever an operand is \<open>NaN\<close>.\<close>

definition num_greater :: "number \<Rightarrow> number \<Rightarrow> bool" where
  "num_greater x y =
     (case x of
        NaN \<Rightarrow> False
      | NegInfinity \<Rightarrow> False
      | PosInfinity \<Rightarrow> (case y of NaN \<Rightarrow> False | PosInfinity \<Rightarrow> False | _ \<Rightarrow> True)
      | Fin a \<Rightarrow> (case y of Fin b \<Rightarrow> b < a | NegInfinity \<Rightarrow> True | _ \<Rightarrow> False))"

definition num_less :: "number \<Rightarrow> number \<Rightarrow> bool" where
  "num_less x y = num_greater y x"

text \<open>
  \<open>Math.round\<close>: the nearest integer, a half going up. The result is exact: it is a
  double whenever the argument is one.
\<close>

definition Math_round :: "number \<Rightarrow> number" where
  "Math_round x = (case x of Fin a \<Rightarrow> Fin (of_int \<lfloor>a + 1 / 2\<rfloor>) | _ \<Rightarrow> x)"

subsection \<open>Property reads\<close>

definition nullish :: "json \<Rightarrow> bool" where
  "nullish v = (case v of JUndefined \<Rightarrow> True | JNull \<Rightarrow> True | _ \<Rightarrow> False)"

text \<open>
  \<open>v.k\<close> for the member names the tools read (none of them is a member of a built-in
  prototype): a \<open>TypeError\<close> on \<open>undefined\<close> and \<open>null\<close>, the bound value on an object
  that has the key, \<open>undefined\<close> otherwise.
\<close>

definition lookup :: "(string \<times> json) list \<Rightarrow> string \<Rightarrow> json" where
  "lookup kvs k = (case map_of kvs k of None \<Rightarrow> JUndefined | Some v \<Rightarrow> v)"

definition member_value :: "json \<Rightarrow> string \<Rightarrow> json" where
  "member_value v k = (case v of JObj kvs \<Rightarrow> lookup kvs k | _ \<Rightarrow> JUndefined)"

definition getProp :: "runtime \<Rightarrow> json \<Rightarrow> string \<Rightarrow> thrown + json" where
  "getProp rt v k =
     (if nullish v then Inl (Error (typeErrorMessage rt v k)) else Inr (member_value v k))"

section \<open>Schemas\<close>

text \<open>
  \<open>z.number().min(0)\<close>: the input is a number other than \<open>NaN\<close>, and not below 0.
\<close>

definition z_number_min0 :: "path_elem list \<Rightarrow> json \<Rightarrow> zod_issue list + number" where
  "z_number_min0 path v =
     (case v of
        JNum n \<Rightarrow>
          (if n = NaN then Inl [ZodIssue invalid_type path]
           else if num_less n (Fin 0) then Inl [ZodIssue too_small path]
           else Inr n)
      | _ \<Rightarrow> Inl [ZodIssue invalid_type path])"

text \<open>\<open>schema.optional()\<close>: \<open>undefined\<close> passes as absent.\<close>

definition z_optional ::
  "(path_elem list \<Rightarrow> json \<Rightarrow> zod_issue list + 'a) \<Rightarrow> path_elem list \<Rightarrow> json
   \<Rightarrow> zod_issue list + 'a option" where
  "z_optional inner path v =
     (if v = JUndefined then Inr None
      else (case inner path v of Inl is \<Rightarrow> Inl is | Inr x \<Rightarrow> Inr (Some x)))"

definition issues_of :: "zod_issue list + 'a \<Rightarrow> zod_issue list" where
  "issues_of r = (case r of Inl is \<Rightarrow> is | Inr x \<Rightarrow> [])"

text \<open>\<open>z.enum([...])\<close>: a string of the list.\<close>

definition z_enum :: "string list \<Rightarrow> path_elem list \<Rightarrow> json \<Rightarrow> zod_issue list + string" where
  "z_enum vals path v =
     (case v of
        JStr s \<Rightarrow> (if s \<in> set vals then Inr s else Inl [ZodIssue invalid_enum_value path])
      | _ \<Rightarrow> Inl [ZodIssue invalid_type path])"

definition z_boolean :: "path_elem list \<Rightarrow> json \<Rightarrow> zod_issue list + bool" where
  "z_boolean path v = (case v of JBool b \<Rightarrow> Inr b | _ \<Rightarrow> Inl [ZodIssue invalid_type path])"

text \<open>
  \<open>z.array(elem)\<close>: every element is validated, at its index, and the issues of all of
  them are collected.
\<close>

fun z_array_items ::
  "(path_elem list \<Rightarrow> json \<Rightarrow> zod_issue list + 'a) \<Rightarrow> path_elem list \<Rightarrow> nat \<Rightarrow> json list
   \<Rightarrow> zod_issue list + 'a list" where
  "z_array_items elem path i [] = Inr []"
| "z_array_items elem path i (x # xs) =
     (case elem (path @ [Index i]) x of
        Inl is \<Rightarrow> Inl (is @ issues_of (z_array_items elem path (Suc i) xs))
      | Inr y \<Rightarrow>
          (case z_array_items elem path (Suc i) xs of
             Inl is \<Rightarrow> Inl is
           | Inr ys \<Rightarrow> Inr (y # ys)))"

definition z_array ::
  "(path_elem list \<Rightarrow> json \<Rightarrow> zod_issue list + 'a) \<Rightarrow> path_elem list \<Rightarrow> json
   \<Rightarrow> zod_issue list + 'a list" where
  "z_array elem path v =
     (case v of JArr xs \<Rightarrow> z_array_items elem path 0 xs | _ \<Rightarrow> Inl [ZodIssue invalid_type path])"

text \<open>\<open>schema.default(d)\<close>: \<open>undefined\<close> is replaced by \<open>d\<close> before \<open>schema\<close> runs.\<close>

definition z_default ::
  "json \<Rightarrow> (path_elem list \<Rightarrow> json \<Rightarrow> zod_issue list + 'a) \<Rightarrow> path_elem list \<Rightarrow> json
   \<Rightarrow> zod_issue list + 'a" where
  "z_default d inner path v = inner path (if v = JUndefined then d else v)"

text \<open>
  The discount union, discriminated by \<open>type\<close>: \<open>{ type: 'BANK_ACCOUNT' }\<close> or
  \<open>{ type: 'SUSTAINABILITY', label: 'B' | 'A_OR_HIGHER' }\<close>. Keys the option does not
  declare are stripped.
\<close>

datatype discount = BANK_ACCOUNT | SUSTAINABILITY string

definition discount_schema :: "path_elem list \<Rightarrow> json \<Rightarrow> zod_issue list + discount" where
  "discount_schema path v =
     (case v of
        JObj kvs \<Rightarrow>
          (if lookup kvs ''type'' = JStr ''BANK_ACCOUNT'' then Inr BANK_ACCOUNT
           else if lookup kvs ''type'' = JStr ''SUSTAINABILITY'' then
             (case z_enum [''B'', ''A_OR_HIGHER''] (path @ [Key ''label'']) (lookup kvs ''label'') of
                Inl is \<Rightarrow> Inl is
              | Inr l \<Rightarrow> Inr (SUSTAINABILITY l))
           else Inl [ZodIssue invalid_union_discriminator (path @ [Key ''type''])])
      | _ \<Rightarrow> Inl [ZodIssue invalid_type path])"

text \<open>The JavaScript object a validated discount is.\<close>

definition discount_value :: "discount \<Rightarrow> json" where
  "discount_value d =
     (case d of
        BANK_ACCOUNT \<Rightarrow> JObj [(''type'', JStr ''BANK_ACCOUNT'')]
      | SUSTAINABILITY l \<Rightarrow> JObj [(''type'', JStr ''SUSTAINABILITY''), (''label'', JStr l)])"

text \<open>
  The output of the interest-rate schema: the fields \<open>product\<close>, \<open>type\<close>, \<open>discounts\<close>
  and \<open>inactive\<close> of the source.
\<close>

record InterestRateRequest =
  r_product :: string
  r_type :: string
  r_discounts :: "discount list option"
  r_inactive :: "bool option"

text \<open>
  \<open>z.object({ product: z.enum(products), type: z.enum(types),
  discounts: z.array(...).optional().default([]),
  inactive: z.boolean().optional().default(false) })\<close>, for the two lists of enum values.
  The four fields are validated in this order and their issues collected.
\<close>

definition InterestRateRequestSchema_of ::
  "string list \<Rightarrow> string list \<Rightarrow> json \<Rightarrow> zod_issue list + InterestRateRequest" where
  "InterestRateRequestSchema_of products types args =
     (case args of
        JObj kvs \<Rightarrow>
          (let p = z_enum products [Key ''product''] (lookup kvs ''product'');
               t = z_enum types [Key ''type''] (lookup kvs ''type'');
               d = z_default (JArr []) (z_optional (z_array discount_schema))
                     [Key ''discounts''] (lookup kvs ''discounts'');
               i = z_default (JBool False) (z_optional z_boolean)
                     [Key ''inactive''] (lookup kvs ''inactive'')
           in if isl p \<or> isl t \<or> isl d \<or> isl i
              then Inl (issues_of p @ issues_of t @ issues_of d @ issues_of i)
              else Inr \<lparr> r_product = projr p, r_type = projr t,
                         r_discounts = projr d, r_inactive = projr i \<rparr>)
      | _ \<Rightarrow> Inl [ZodIssue invalid_type []])"

text \<open>
  \<open>InterestRateRequestSchema\<close> as \<open>src/tools.ts\<close> declares it: one product and one
  repayment type.
\<close>

definition InterestRateRequestSchema_tools_ts :: "json \<Rightarrow> zod_issue list + InterestRateRequest" where
  "InterestRateRequestSchema_tools_ts =
     InterestRateRequestSchema_of [''BUDGET''] [''ANNUITAIR'']"

text \<open>
  \<open>InterestRateRequestSchema\<close> as the second copy of the tools module declares it (the
  one that also holds the fixed-fact tools), and as \<open>src/index.ts\<close> registers the tool.
\<close>

definition InterestRateRequestSchema_part_000 :: "json \<Rightarrow> zod_issue list + InterestRateRequest" where
  "InterestRateRequestSchema_part_000 =
     InterestRateRequestSchema_of [''BUDGET'', ''WONING''] [''ANNUITAIR'', ''LINEAIR'', ''AFLOSSINGSVRIJ'']"

text \<open>
  \<open>MaximumMortgageRequestSchema = z.object({ mainIncome: z.number().min(0),
  partnerIncome: z.number().min(0).optional() })\<close>.
\<close>

record MaximumMortgageRequest =
  r_mainIncome :: number
  r_partnerIncome :: "number option"

definition MaximumMortgageRequestSchema :: "json \<Rightarrow> zod_issue list + MaximumMortgageRequest" where
  "MaximumMortgageRequestSchema args =
     (case args of
        JObj kvs \<Rightarrow>
          (let m = z_number_min0 [Key ''mainIncome''] (lookup kvs ''mainIncome'');
               p = z_optional z_number_min0 [Key ''partnerIncome''] (lookup kvs ''partnerIncome'')
           in if isl m \<or> isl p
              then Inl (issues_of m @ issues_of p)
              else Inr \<lparr> r_mainIncome = projr m, r_partnerIncome = projr p \<rparr>)
      | _ \<Rightarrow> Inl [ZodIssue invalid_type []])"

text \<open>\<open>HouseTaxQuotaRequestSchema = z.object({ housePrice: z.number().min(0) })\<close>.\<close>

definition HouseTaxQuotaRequestSchema :: "json \<Rightarrow> zod_issue list + number" where
  "HouseTaxQuotaRequestSchema args =
     (case args of
        JObj kvs \<Rightarrow> z_number_min0 [Key ''housePrice''] (lookup kvs ''housePrice'')
      | _ \<Rightarrow> Inl [ZodIssue invalid_type []])"

text \<open>\<open>schema.parse(args)\<close> throws a \<open>ZodError\<close>, an \<open>Error\<close>, when validation fails.\<close>

definition parse :: "runtime \<Rightarrow> (json \<Rightarrow> zod_issue list + 'a) \<Rightarrow> json \<Rightarrow> thrown + 'a" where
  "parse rt schema args =
     (case schema args of Inl is \<Rightarrow> Inl (Error (zodMessage rt is)) | Inr x \<Rightarrow> Inr x)"

section \<open>Tool results\<close>

text \<open>
  Every tool returns \<open>{ content: [{ type: 'text', text: JSON.stringify(v, null, 2) }] }\<close>.
  The model keeps the value \<open>v\<close> that is serialised.
\<close>

datatype CallToolResult = TextContent json

text \<open>The two envelopes: \<open>{ success: true, data }\<close> and \<open>{ success: false, error }\<close>.\<close>

definition success :: "json \<Rightarrow> CallToolResult" where
  "success d = TextContent (JObj [(''success'', JBool True), (''data'', d)])"

text \<open>\<open>error instanceof Error ? error.message : 'Unknown error'\<close>.\<close>

definition error_message :: "thrown \<Rightarrow> string" where
  "error_message e = (case e of Error m \<Rightarrow> m | NonError \<Rightarrow> ''Unknown error'')"

definition failure :: "string \<Rightarrow> thrown \<Rightarrow> CallToolResult" where
  "failure prefix e =
     TextContent (JObj [(''success'', JBool False), (''error'', JStr (prefix @ error_message e))])"

section \<open>Fixed-fact tools\<close>

definition MaxTransferTaxPremiumCap :: number where
  "MaxTransferTaxPremiumCap = Fin 525000"

text \<open>The literals \<open>0.02\<close> and \<open>37.48\<close> denote the doubles nearest to them.\<close>

definition TransferTaxRate :: number where
  "TransferTaxRate = Fin (5764607523034235 / 2 ^ 58)"

definition MaxInterestRepaymentDeductionRate :: number where
  "MaxInterestRepaymentDeductionRate = Fin (5274841063557693 / 2 ^ 47)"

definition transferTaxDescription :: string where
  "transferTaxDescription =
     ''Dutch property transfer tax for 2025: 2% of the purchase price for properties above ''
     @ [CHR 0xE2, CHR 0x82, CHR 0xAC] @ ''525,000''"

text \<open>
  \<open>getPropertyTransferTax\<close>: the schema's \<open>parse\<close> is the first statement and stands
  outside any \<open>try\<close>, so its throw leaves the function.
\<close>

definition getPropertyTransferTax :: "runtime \<Rightarrow> json \<Rightarrow> thrown + CallToolResult" where
  "getPropertyTransferTax rt args =
     bindE (parse rt HouseTaxQuotaRequestSchema args) (\<lambda>housePrice.
       let taxQuota = (if num_greater housePrice MaxTransferTaxPremiumCap
                       then num_times housePrice TransferTaxRate else Fin 0)
       in Inr (success (JObj [
            (''taxQuota'', JNum taxQuota),
            (''description'', JStr transferTaxDescription)])))"

text \<open>The two fixed facts, with no input and no failure path.\<close>

definition getMortageInterestRateDeduction :: CallToolResult where
  "getMortageInterestRateDeduction =
     success (JObj [
       (''deductionPercentage'', JNum MaxInterestRepaymentDeductionRate),
       (''description'', JStr (''Maximum tax deduction rate for mortgage interest payments in ''
          @ ''the Netherlands for 2025 (37.48% of interest paid can be deducted from taxable income)''))])"

definition getMaximumMortageNationalHomeGuarantee :: CallToolResult where
  "getMaximumMortageNationalHomeGuarantee =
     success (JObj [
       (''deductionPercentage'', JNum (Fin 450000)),
       (''description'', JStr (''Dutch National Mortgage Guarantee (NHG) limit for 2025: mortgages up to ''
          @ [CHR 0xE2, CHR 0x82, CHR 0xAC] @ ''450,000 qualify for lower NHG interest rates''))])"

section \<open>HTTP\<close>

text \<open>
  What \<open>fetch(url, init)\<close> is called with. A body is the value that
  \<open>JSON.stringify\<close> serialises; a request without \<open>body\<close> has none.
\<close>

record request =
  req_url :: string
  req_method :: string
  req_headers :: "(string \<times> string) list"
  req_body :: "json option"

text \<open>
  What the adapters read of a response: \<open>ok\<close>, \<open>status\<close>, and the outcomes of
  \<open>text()\<close> and \<open>json()\<close>, each of which may reject.
\<close>

record response =
  resp_ok :: bool
  resp_status :: nat
  resp_text :: "thrown + string"
  resp_json :: "thrown + json"

subsection \<open>Numbers as text\<close>

definition digit_char :: "nat \<Rightarrow> char" where
  "digit_char d = ''0123456789'' ! d"

fun string_of_nat :: "nat \<Rightarrow> string" where
  "string_of_nat n =
     (if n < 10 then [digit_char n] else string_of_nat (n div 10) @ [digit_char (n mod 10)])"

declare string_of_nat.simps [simp del]

text \<open>
  \<open>n.toString()\<close>: an integer of magnitude at most \<open>2^53\<close> is written with all its
  decimal digits; the text of any other finite number (the shortest digits that read
  back as the same double) is the host's.
\<close>

definition Number_toString :: "runtime \<Rightarrow> number \<Rightarrow> string" where
  "Number_toString rt n =
     (case n of
        NaN \<Rightarrow> ''NaN''
      | PosInfinity \<Rightarrow> ''Infinity''
      | NegInfinity \<Rightarrow> ''-Infinity''
      | Fin r \<Rightarrow>
          (if of_int \<lfloor>r\<rfloor> = r \<and> \<bar>r\<bar> \<le> 2 ^ 53
           then (if r < 0 then ''-'' @ string_of_nat (nat \<lfloor>- r\<rfloor>) else string_of_nat (nat \<lfloor>r\<rfloor>))
           else numberToString rt r))"

subsection \<open>URLs\<close>

text \<open>
  \<open>url.searchParams.append(name, value)\<close> and \<open>url.toString()\<close> on a URL that has no
  query of its own: the pairs are serialised as \<open>application/x-www-form-urlencoded\<close>.
  ASCII letters, digits and \<open>* - . _\<close> stand for themselves, a space becomes \<open>+\<close>, every
  other byte is percent-encoded.
\<close>

definition hex_char :: "nat \<Rightarrow> char" where
  "hex_char d = ''0123456789ABCDEF'' ! d"

definition urlencoded_unreserved :: "char \<Rightarrow> bool" where
  "urlencoded_unreserved c =
     (let n = (of_char c :: nat)
      in (48 \<le> n \<and> n \<le> 57) \<or> (65 \<le> n \<and> n \<le> 90) \<or> (97 \<le> n \<and> n \<le> 122)
         \<or> n = 42 \<or> n = 45 \<or> n = 46 \<or> n = 95)"

definition urlencoded_char :: "char \<Rightarrow> string" where
  "urlencoded_char c =
     (if urlencoded_unreserved c then [c]
      else if c = CHR '' '' then ''+''
      else [CHR ''%'', hex_char (of_char c div 16), hex_char (of_char c mod 16)])"

definition urlencoded :: "string \<Rightarrow> string" where
  "urlencoded s = concat (map urlencoded_char s)"

fun searchParams_toString :: "(string \<times> string) list \<Rightarrow> string" where
  "searchParams_toString [] = []"
| "searchParams_toString [(k, v)] = urlencoded k @ ''='' @ urlencoded v"
| "searchParams_toString ((k, v) # kv # kvs) =
     urlencoded k @ ''='' @ urlencoded v @ ''&'' @ searchParams_toString (kv # kvs)"

definition URL_toString :: "string \<Rightarrow> (string \<times> string) list \<Rightarrow> string" where
  "URL_toString base params =
     (if params = [] then base else base @ ''?'' @ searchParams_toString params)"

subsection \<open>Array methods with a callback that may throw\<close>

fun mapE :: "('a \<Rightarrow> thrown + 'b) \<Rightarrow> 'a list \<Rightarrow> thrown + 'b list" where
  "mapE f [] = Inr []"
| "mapE f (x # xs) = bindE (f x) (\<lambda>y. bindE (mapE f xs) (\<lambda>ys. Inr (y # ys)))"

fun filterE :: "('a \<Rightarrow> thrown + bool) \<Rightarrow> 'a list \<Rightarrow> thrown + 'a list" where
  "filterE p [] = Inr []"
| "filterE p (x # xs) =
     bindE (p x) (\<lambda>b. bindE (filterE p xs) (\<lambda>ys. Inr (if b then x # ys else ys)))"

text \<open>\<open>find\<close> stops at the first element the predicate accepts.\<close>

fun findE :: "('a \<Rightarrow> thrown + bool) \<Rightarrow> 'a list \<Rightarrow> thrown + 'a option" where
  "findE p [] = Inr None"
| "findE p (x # xs) = bindE (p x) (\<lambda>b. if b then Inr (Some x) else findE p xs)"

text \<open>
  \<open>v.m(callback)\<close> for \<open>m\<close> one of \<open>map\<close>, \<open>find\<close>, \<open>filter\<close> on a value that is
  neither \<open>undefined\<close> nor \<open>null\<close>: only an array has the method; on anything else the
  call is a \<open>TypeError\<close>.
\<close>

definition arrayMethod :: "runtime \<Rightarrow> json \<Rightarrow> string \<Rightarrow> thrown + json list" where
  "arrayMethod rt v m =
     (case v of JArr xs \<Rightarrow> Inr xs | _ \<Rightarrow> Inl (Error (typeErrorMessage rt v m)))"

text \<open>\<open>ToNumber\<close>, applied by \<open>/\<close> to its left operand.\<close>

definition ToNumber :: "runtime \<Rightarrow> json \<Rightarrow> thrown + number" where
  "ToNumber rt v =
     (case v of
        JNum n \<Rightarrow> Inr n
      | JUndefined \<Rightarrow> Inr NaN
      | JNull \<Rightarrow> Inr (Fin 0)
      | JBool b \<Rightarrow> Inr (Fin (if b then 1 else 0))
      | _ \<Rightarrow> toNumberOther rt v)"

text \<open>The values that count as false: \<open>a || b\<close> is \<open>b\<close> exactly when \<open>a\<close> is one of them.\<close>

definition falsy :: "json \<Rightarrow> bool" where
  "falsy v =
     (case v of
        JUndefined \<Rightarrow> True
      | JNull \<Rightarrow> True
      | JBool b \<Rightarrow> b = False
      | JNum n \<Rightarrow> n = Fin 0 \<or> n = NaN
      | JStr s \<Rightarrow> s = []
      | _ \<Rightarrow> False)"

definition or_else :: "json \<Rightarrow> json \<Rightarrow> json" where
  "or_else a b = (if falsy a then b else a)"

definition apiError :: "nat \<Rightarrow> string \<Rightarrow> thrown" where
  "apiError status errorText =
     Error (''ABN AMRO API error ('' @ string_of_nat status @ ''): '' @ errorText)"

section \<open>The interest-rate tool\<close>

definition interestRateEndpoint :: string where
  "interestRateEndpoint =
     ''https://hypotheken.abnamro.nl/mortgage-customer-interest-rate-calculation/v1/interest-rates/calculate''"

text \<open>
  The request the tool issues: \<open>requestBody = { product, type, discounts }\<close>, the URL
  with \<open>inactive=true\<close> appended when \<open>inactive\<close> holds.
\<close>

definition requestBody :: "string \<Rightarrow> string \<Rightarrow> discount list \<Rightarrow> json" where
  "requestBody product type discounts =
     JObj [(''product'', JStr product), (''type'', JStr type),
           (''discounts'', JArr (map discount_value discounts))]"

definition interestRateFetch :: "string \<Rightarrow> string \<Rightarrow> discount list \<Rightarrow> bool \<Rightarrow> request" where
  "interestRateFetch product type discounts inactive =
     \<lparr> req_url = URL_toString interestRateEndpoint
                   (if inactive then [(''inactive'', ''true'')] else []),
       req_method = ''POST'',
       req_headers = [(''Content-Type'', ''application/json'')],
       req_body = Some (requestBody product type discounts) \<rparr>"

text \<open>\<open>r.type === tag\<close>, the predicate of \<open>find\<close> and \<open>filter\<close>.\<close>

definition hasType :: "runtime \<Rightarrow> string \<Rightarrow> json \<Rightarrow> thrown + bool" where
  "hasType rt tag r = bindE (getProp rt r ''type'') (\<lambda>t. Inr (t = JStr tag))"

text \<open>\<open>v?.k\<close>.\<close>

definition optionalMember :: "runtime \<Rightarrow> json \<Rightarrow> string \<Rightarrow> thrown + json" where
  "optionalMember rt v k = (if nullish v then Inr JUndefined else getProp rt v k)"

text \<open>\<open>period.rates?.find((r) => r.type === 'NHG')?.value\<close>.\<close>

definition dutchNationalMortgageGuarantee :: "runtime \<Rightarrow> json \<Rightarrow> thrown + json" where
  "dutchNationalMortgageGuarantee rt rates =
     (if nullish rates then Inr JUndefined
      else bindE (arrayMethod rt rates ''find'') (\<lambda>rs.
           bindE (findE (hasType rt ''NHG'') rs) (\<lambda>found.
           (case found of
              None \<Rightarrow> Inr JUndefined
            | Some r \<Rightarrow> optionalMember rt r ''value''))))"

text \<open>
  \<open>period.rates?.filter((r) => r.type === 'LTV').map((r) => ({ range: r.ltv, rate: r.value }))\<close>.
\<close>

definition ltvEntry :: "runtime \<Rightarrow> json \<Rightarrow> thrown + json" where
  "ltvEntry rt r =
     bindE (getProp rt r ''ltv'') (\<lambda>range.
     bindE (getProp rt r ''value'') (\<lambda>rate.
     Inr (JObj [(''range'', range), (''rate'', rate)])))"

definition lifeTimeValue :: "runtime \<Rightarrow> json \<Rightarrow> thrown + json" where
  "lifeTimeValue rt rates =
     (if nullish rates then Inr JUndefined
      else bindE (arrayMethod rt rates ''filter'') (\<lambda>rs.
           bindE (filterE (hasType rt ''LTV'') rs) (\<lambda>ltvs.
           bindE (mapE (ltvEntry rt) ltvs) (\<lambda>entries.
           Inr (JArr entries)))))"

text \<open>\<open>Math.round(period.duration / 12 * 10) / 10\<close>.\<close>

definition durationInYears :: "runtime \<Rightarrow> json \<Rightarrow> thrown + number" where
  "durationInYears rt duration =
     bindE (ToNumber rt duration) (\<lambda>n.
     Inr (num_divide (Math_round (num_times (num_divide n 12) (Fin 10))) 10))"

text \<open>The callback of \<open>data.periods?.map\<close>, in the order the object literal reads.\<close>

definition normalizePeriod :: "runtime \<Rightarrow> json \<Rightarrow> thrown + json" where
  "normalizePeriod rt period =
     bindE (getProp rt period ''duration'') (\<lambda>duration.
     bindE (durationInYears rt duration) (\<lambda>years.
     bindE (getProp rt period ''inactive'') (\<lambda>inactive.
     bindE (getProp rt period ''type'') (\<lambda>type.
     bindE (getProp rt period ''reflectionPeriod'') (\<lambda>reflectionPeriod.
     bindE (getProp rt period ''rates'') (\<lambda>rates.
     bindE (dutchNationalMortgageGuarantee rt rates) (\<lambda>nhg.
     bindE (lifeTimeValue rt rates) (\<lambda>ltv.
     Inr (JObj [
       (''duration'', duration),
       (''durationInYears'', JNum years),
       (''inactive'', inactive),
       (''type'', type),
       (''reflectionPeriod'', reflectionPeriod),
       (''rates'', JObj [
          (''dutchNationalMortgageGuarantee'', nhg),
          (''lifeTimeValue'', ltv)])])))))))))"

text \<open>\<open>data.periods?.map(...) || []\<close>.\<close>

definition normalizedPeriods :: "runtime \<Rightarrow> json \<Rightarrow> thrown + json" where
  "normalizedPeriods rt data =
     bindE (getProp rt data ''periods'') (\<lambda>periods.
     bindE (if nullish periods then Inr JUndefined
            else bindE (arrayMethod rt periods ''map'') (\<lambda>ps.
                 bindE (mapE (normalizePeriod rt) ps) (\<lambda>qs. Inr (JArr qs)))) (\<lambda>mapped.
     Inr (or_else mapped (JArr []))))"

text \<open>The \<open>data\<close> record of the success envelope.\<close>

definition interestRateData ::
  "runtime \<Rightarrow> string \<Rightarrow> string \<Rightarrow> discount list \<Rightarrow> bool \<Rightarrow> json \<Rightarrow> thrown + json" where
  "interestRateData rt product type discounts inactive data =
     bindE (getProp rt data ''overbruggingskrediet'') (\<lambda>rate.
     bindE (getProp rt data ''renteblad'') (\<lambda>rateSheetDate.
     bindE (getProp rt data ''overbruggingskredieten'') (\<lambda>options.
     bindE (normalizedPeriods rt data) (\<lambda>periods.
     bindE (getProp rt data ''interestRate'') (\<lambda>interestRate.
     bindE (getProp rt data ''effectiveRate'') (\<lambda>effectiveRate.
     bindE (getProp rt data ''baseRate'') (\<lambda>baseRate.
     bindE (getProp rt data ''appliedDiscounts'') (\<lambda>appliedDiscounts.
     bindE (getProp rt data ''calculationDate'') (\<lambda>calculationDate.
     Inr (JObj [
       (''bridgingCredit'', JObj [
          (''rate'', rate),
          (''rateSheetDate'', rateSheetDate),
          (''options'', options)]),
       (''periods'', periods),
       (''interestRate'', interestRate),
       (''effectiveRate'', effectiveRate),
       (''baseRate'', baseRate),
       (''appliedDiscounts'', appliedDiscounts),
       (''calculationDate'', calculationDate),
       (''requestParameters'', JObj [
          (''product'', JStr product),
          (''type'', JStr type),
          (''discounts'', JArr (map discount_value discounts)),
          (''inactive'', JBool inactive)])]))))))))))"

text \<open>What follows \<open>await fetch(...)\<close> inside the \<open>try\<close> block.\<close>

definition interestRateResponse ::
  "runtime \<Rightarrow> string \<Rightarrow> string \<Rightarrow> discount list \<Rightarrow> bool \<Rightarrow> response \<Rightarrow> thrown + CallToolResult" where
  "interestRateResponse rt product type discounts inactive resp =
     (if \<not> resp_ok resp
      then bindE (resp_text resp) (\<lambda>errorText. Inl (apiError (resp_status resp) errorText))
      else bindE (resp_json resp) (\<lambda>data.
           bindE (interestRateData rt product type discounts inactive data) (\<lambda>d.
           Inr (success d))))"

text \<open>
  The destructuring defaults \<open>discounts = []\<close> and \<open>inactive = false\<close>: an absent
  field takes the default.
\<close>

definition discounts_or_empty :: "InterestRateRequest \<Rightarrow> discount list" where
  "discounts_or_empty r = (case r_discounts r of None \<Rightarrow> [] | Some ds \<Rightarrow> ds)"

definition inactive_or_false :: "InterestRateRequest \<Rightarrow> bool" where
  "inactive_or_false r = (case r_inactive r of None \<Rightarrow> False | Some b \<Rightarrow> b)"

text \<open>
  \<open>calculateInterestRate\<close>, for a given schema: the requests it issued, in order, and
  the result it returns. The whole body stands in \<open>try\<close>; the \<open>catch\<close> turns every
  throw into the failure envelope.
\<close>

definition calculateInterestRate_with ::
  "(json \<Rightarrow> zod_issue list + InterestRateRequest) \<Rightarrow> runtime \<Rightarrow> (request \<Rightarrow> thrown + response)
   \<Rightarrow> json \<Rightarrow> request list \<times> CallToolResult" where
  "calculateInterestRate_with schema rt fetch args =
     (case parse rt schema args of
        Inl e \<Rightarrow> ([], failure ''Failed to calculate interest rate: '' e)
      | Inr r \<Rightarrow>
          (let product = r_product r;
               type = r_type r;
               discounts = discounts_or_empty r;
               inactive = inactive_or_false r;
               rq = interestRateFetch product type discounts inactive
           in ([rq],
               (case bindE (fetch rq) (interestRateResponse rt product type discounts inactive) of
                  Inl e \<Rightarrow> failure ''Failed to calculate interest rate: '' e
                | Inr res \<Rightarrow> res))))"

text \<open>\<open>calculateInterestRate\<close> of \<open>src/tools.ts\<close>, the module \<open>src/index.ts\<close> imports.\<close>

definition calculateInterestRate_tools_ts ::
  "runtime \<Rightarrow> (request \<Rightarrow> thrown + response) \<Rightarrow> json \<Rightarrow> request list \<times> CallToolResult" where
  "calculateInterestRate_tools_ts = calculateInterestRate_with InterestRateRequestSchema_tools_ts"

text \<open>\<open>calculateInterestRate\<close> of the second copy of the tools module.\<close>

definition calculateInterestRate_part_000 ::
  "runtime \<Rightarrow> (request \<Rightarrow> thrown + response) \<Rightarrow> json \<Rightarrow> request list \<times> CallToolResult" where
  "calculateInterestRate_part_000 = calculateInterestRate_with InterestRateRequestSchema_part_000"

section \<open>The maximum-mortgage tool\<close>

definition maximumMortgageEndpoint :: string where
  "maximumMortgageEndpoint =
     ''https://hypotheken.abnamro.nl/hypotheekorientatie/api/v1.0/snelle-hypotheek-berekening''"

definition maximumMortgageParams :: "runtime \<Rightarrow> number \<Rightarrow> number option \<Rightarrow> (string \<times> string) list" where
  "maximumMortgageParams rt mainIncome partnerIncome =
     (''mainIncome'', Number_toString rt mainIncome)
     # (case partnerIncome of
          None \<Rightarrow> []
        | Some p \<Rightarrow> [(''partnerIncome'', Number_toString rt p)])"

definition maximumMortgageFetch :: "runtime \<Rightarrow> number \<Rightarrow> number option \<Rightarrow> request" where
  "maximumMortgageFetch rt mainIncome partnerIncome =
     \<lparr> req_url = URL_toString maximumMortgageEndpoint
                   (maximumMortgageParams rt mainIncome partnerIncome),
       req_method = ''GET'',
       req_headers = [(''Accept'', ''application/json'')],
       req_body = None \<rparr>"

text \<open>
  The \<open>data\<close> record of the success envelope: \<open>data.value?.maximumMortgage || null\<close>
  and its two siblings, \<open>data.messages\<close>, and the validated parameters.
\<close>

definition maximumMortgageData :: "runtime \<Rightarrow> number \<Rightarrow> number option \<Rightarrow> json \<Rightarrow> thrown + json" where
  "maximumMortgageData rt mainIncome partnerIncome data =
     bindE (getProp rt data ''value'') (\<lambda>v.
     bindE (optionalMember rt v ''maximumMortgage'') (\<lambda>maximumMortgage.
     bindE (optionalMember rt v ''monthlyPayment'') (\<lambda>monthlyPayment.
     bindE (optionalMember rt v ''interest'') (\<lambda>interest.
     bindE (getProp rt data ''messages'') (\<lambda>messages.
     Inr (JObj [
       (''maximumMortgage'', or_else maximumMortgage JNull),
       (''monthlyPayment'', or_else monthlyPayment JNull),
       (''interest'', or_else interest JNull),
       (''messages'', messages),
       (''requestParameters'', JObj [
          (''mainIncome'', JNum mainIncome),
          (''partnerIncome'',
             (case partnerIncome of None \<Rightarrow> JUndefined | Some p \<Rightarrow> JNum p))])]))))))"

definition maximumMortgageResponse ::
  "runtime \<Rightarrow> number \<Rightarrow> number option \<Rightarrow> response \<Rightarrow> thrown + CallToolResult" where
  "maximumMortgageResponse rt mainIncome partnerIncome resp =
     (if \<not> resp_ok resp
      then bindE (resp_text resp) (\<lambda>errorText. Inl (apiError (resp_status resp) errorText))
      else bindE (resp_json resp) (\<lambda>data.
           bindE (maximumMortgageData rt mainIncome partnerIncome data) (\<lambda>d.
           Inr (success d))))"

definition calculateMaximumMortgage ::
  "runtime \<Rightarrow> (request \<Rightarrow> thrown + response) \<Rightarrow> json \<Rightarrow> request list \<times> CallToolResult" where
  "calculateMaximumMortgage rt fetch args =
     (case parse rt MaximumMortgageRequestSchema args of
        Inl e \<Rightarrow> ([], failure ''Failed to calculate maximum mortgage: '' e)
      | Inr r \<Rightarrow>
          (let mainIncome = r_mainIncome r;
               partnerIncome = r_partnerIncome r;
               rq = maximumMortgageFetch rt mainIncome partnerIncome
           in ([rq],
               (case bindE (fetch rq) (maximumMortgageResponse rt mainIncome partnerIncome) of
                  Inl e \<Rightarrow> failure ''Failed to calculate maximum mortgage: '' e
                | Inr res \<Rightarrow> res))))"

section \<open>A host and responses to evaluate with\<close>

definition sample_runtime :: runtime where
  "sample_runtime =
     \<lparr> zodMessage = (\<lambda>is. ''Invalid input''),
       typeErrorMessage = (\<lambda>v k. ''Cannot read properties''),
       numberToString = (\<lambda>r. ''0.5''),
       toNumberOther = (\<lambda>v. Inr NaN) \<rparr>"

definition json_response :: "json \<Rightarrow> response" where
  "json_response data =
     \<lparr> resp_ok = True, resp_status = 200, resp_text = Inr [], resp_json = Inr data \<rparr>"

definition fetch_returning :: "response \<Rightarrow> request \<Rightarrow> thrown + response" where
  "fetch_returning resp rq = Inr resp"

text \<open>Reading a result back: the \<open>data\<close> member of the envelope, an array element.\<close>

definition envelope_data :: "CallToolResult \<Rightarrow> json" where
  "envelope_data res = (case res of TextContent v \<Rightarrow> member_value v ''data'')"

definition element :: "json \<Rightarrow> nat \<Rightarrow> json" where
  "element v i =
     (case v of JArr xs \<Rightarrow> (if i < length xs then xs ! i else JUndefined) | _ \<Rightarrow> JUndefined)"

definition request_body_keys :: "request \<Rightarrow> string list" where
  "request_body_keys rq = (case req_body rq of Some (JObj kvs) \<Rightarrow> map fst kvs | _ \<Rightarrow> [])"

text \<open>A period with two entries tagged \<open>NHG\<close> and two tagged \<open>LTV\<close>.\<close>

definition sample_rates :: "json list" where
  "sample_rates =
     [JObj [(''type'', JStr ''NHG''), (''value'', JNum (Fin (13 / 4)))],
      JObj [(''type'', JStr ''LTV''), (''ltv'', JStr ''80-90%''), (''value'', JNum (Fin (7 / 2)))],
      JObj [(''type'', JStr ''NHG''), (''value'', JNum (Fin (39 / 4)))],
      JObj [(''type'', JStr ''LTV''), (''ltv'', JStr ''90-100%''), (''value'', JNum (Fin (15 / 4)))]]"

definition sample_period :: json where
  "sample_period =
     JObj [(''duration'', JNum (Fin 120)), (''inactive'', JBool False), (''type'', JStr ''VAST''),
           (''reflectionPeriod'', JNum (Fin 14)), (''rates'', JArr sample_rates)]"

section \<open>Basic facts\<close>

lemma bindE_Inr [simp]: "bindE (Inr x) f = f x"
  by (simp add: bindE_def)

lemma bindE_Inl [simp]: "bindE (Inl e) f = Inl e"
  by (simp add: bindE_def)

lemma getProp_defined [simp]: "\<not> nullish v \<Longrightarrow> getProp rt v k = Inr (member_value v k)"
  by (simp add: getProp_def)

lemma nullish_simps [simp]:
  "nullish JUndefined" "nullish JNull" "\<not> nullish (JBool b)" "\<not> nullish (JNum n)"
  "\<not> nullish (JStr s)" "\<not> nullish (JArr xs)" "\<not> nullish (JObj kvs)"
  by (simp_all add: nullish_def)

lemma member_value_JObj [simp]: "member_value (JObj kvs) k = lookup kvs k"
  by (simp add: member_value_def)

lemma member_value_nullish: "nullish v \<Longrightarrow> member_value v k = JUndefined"
  by (cases v) (simp_all add: member_value_def)

lemma lookup_Nil [simp]: "lookup [] k = JUndefined"
  by (simp add: lookup_def)

lemma lookup_Cons [simp]: "lookup ((k', v) # kvs) k = (if k' = k then v else lookup kvs k)"
  by (simp add: lookup_def)

lemmas schema_defs =
  parse_def z_number_min0_def z_optional_def z_enum_def z_boolean_def z_array_def z_default_def
  discount_schema_def issues_of_def num_less_def num_greater_def

lemma success_neq_failure [simp]: "success d \<noteq> failure prefix e" "failure prefix e \<noteq> success d"
  by (simp_all add: success_def failure_def)

lemma success_inject [simp]: "success d = success d' \<longleftrightarrow> d = d'"
  by (simp add: success_def)

lemma optionalMember_eq [simp]: "optionalMember rt v k = Inr (member_value v k)"
  by (cases "nullish v") (simp_all add: optionalMember_def member_value_nullish)

section \<open>Rounding to a double\<close>



lemma round_half_even_unique:
  assumes "\<bar>y - of_int m\<bar> < 1 / 2"
  shows "round_half_even y = m"
proof (cases "of_int m \<le> y")
  case True
  with assms have "\<lfloor>y\<rfloor> = m" by (simp add: floor_eq_iff abs_less_iff)
  with assms True show ?thesis by (simp add: round_half_even_def Let_def abs_less_iff)
next
  case False
  with assms have f: "\<lfloor>y\<rfloor> = m - 1" by (simp add: floor_eq_iff abs_less_iff)
  with assms False show ?thesis by (simp add: round_half_even_def Let_def abs_less_iff)
qed

lemma bitlen_powi_bounds:
  assumes "0 < a"
  shows "(2::rat) powi (bitlen a - 1) \<le> of_int a" and "of_int a < (2::rat) powi (bitlen a)"
proof -
  from assms have pos: "0 < bitlen a" using bitlen_eq_zero_iff [of a] bitlen_nonneg [of a] by linarith
  from bitlen_bounds [OF assms] have lo: "2 ^ nat (bitlen a - 1) \<le> a" and hi: "a < 2 ^ nat (bitlen a)"
    by simp_all
  have "(2::rat) powi (bitlen a - 1) = 2 ^ nat (bitlen a - 1)"
    using pos by (simp add: power_int_def)
  also have "\<dots> = of_int (2 ^ nat (bitlen a - 1))" by simp
  also have "\<dots> \<le> of_int a" using lo by (simp only: of_int_le_iff)
  finally show "(2::rat) powi (bitlen a - 1) \<le> of_int a" .
  have "(of_int a :: rat) < of_int (2 ^ nat (bitlen a))" using hi by (simp only: of_int_less_iff)
  also have "\<dots> = 2 ^ nat (bitlen a)" by simp
  also have "\<dots> = (2::rat) powi (bitlen a)" using pos by (simp add: power_int_def)
  finally show "of_int a < (2::rat) powi (bitlen a)" .
qed

lemma binade_bounds:
  assumes "x \<noteq> 0"
  shows "2 powi (binade x) \<le> \<bar>x\<bar>" and "\<bar>x\<bar> < 2 powi (binade x + 1)"
proof -
  define a where "a = fst (quotient_of \<bar>x\<bar>)"
  define b where "b = snd (quotient_of \<bar>x\<bar>)"
  define k where "k = bitlen a - bitlen b"
  have q: "quotient_of \<bar>x\<bar> = (a, b)" by (simp add: a_def b_def)
  have b: "0 < b" using quotient_of_denom_pos [OF q] .
  have x: "\<bar>x\<bar> = of_int a / of_int b" using quotient_of_div [OF q] .
  have a: "0 < a"
  proof -
    from assms have "0 < \<bar>x\<bar>" by simp
    with x b have "0 < (of_int a :: rat)" by (simp add: zero_less_divide_iff)
    then show ?thesis by simp
  qed
  note A = bitlen_powi_bounds [OF a] and B = bitlen_powi_bounds [OF b]
  have bpos: "0 < (of_int b :: rat)" using b by simp
  have hi: "\<bar>x\<bar> < 2 powi (k + 1)"
  proof -
    have "(2::rat) powi (k + 1) * of_int b \<ge> 2 powi (k + 1) * 2 powi (bitlen b - 1)"
      using B(1) by (intro mult_left_mono) simp_all
    moreover have "(2::rat) powi (k + 1) * 2 powi (bitlen b - 1) = 2 powi (bitlen a)"
      by (simp add: k_def power_int_add [symmetric])
    ultimately have "of_int a < (2::rat) powi (k + 1) * of_int b" using A(2) by linarith
    then show ?thesis using bpos by (simp add: x pos_divide_less_eq)
  qed
  have lo: "2 powi (k - 1) < \<bar>x\<bar>"
  proof -
    have "(2::rat) powi (k - 1) * of_int b < 2 powi (k - 1) * 2 powi (bitlen b)"
      using B(2) by (intro mult_strict_left_mono) simp_all
    moreover have "(2::rat) powi (k - 1) * 2 powi (bitlen b) = 2 powi (bitlen a - 1)"
      by (simp add: k_def power_int_add [symmetric])
    ultimately have "(2::rat) powi (k - 1) * of_int b < of_int a" using A(1) by linarith
    then show ?thesis using bpos by (simp add: x pos_less_divide_eq)
  qed
  have e: "binade x = (if 2 powi k \<le> \<bar>x\<bar> then k else k - 1)"
    by (simp add: binade_def Let_def a_def b_def k_def)
  show "2 powi (binade x) \<le> \<bar>x\<bar>" using lo by (simp add: e)
  show "\<bar>x\<bar> < 2 powi (binade x + 1)" using hi by (auto simp: e)
qed



lemma binade_less: "x \<noteq> 0 \<Longrightarrow> \<bar>x\<bar> < 2 powi e \<Longrightarrow> binade x < e"
proof (rule ccontr)
  assume x: "x \<noteq> 0" and a: "\<bar>x\<bar> < 2 powi e" and "\<not> binade x < e"
  then have "(2::rat) powi e \<le> 2 powi (binade x)" by (intro power_int_increasing) simp_all
  with binade_bounds(1) [OF x] a show False by linarith
qed




lemma round64_representable:
  assumes m: "\<bar>m\<bar> < 2 ^ 53" and k: "- 1074 \<le> k"
    and fin: "\<bar>of_int m * 2 powi k\<bar> < overflow_threshold"
  shows "round64 (of_int m * 2 powi k) = Fin (of_int m * 2 powi k)"
proof (cases "m = 0")
  case True
  then show ?thesis by (simp add: round64_def)
next
  case False
  define x :: rat where "x = of_int m * 2 powi k"
  have x: "x \<noteq> 0" using False by (simp add: x_def)
  define j where "j = max (binade x) (- 1022) - 52"
  have q: "quantum x = 2 powi j" by (simp add: quantum_def j_def)
  have "\<bar>x\<bar> < 2 powi (53 + k)"
  proof -
    have "\<bar>x\<bar> = of_int \<bar>m\<bar> * 2 powi k" by (simp add: x_def abs_mult)
    also have "\<dots> < of_int (2 ^ 53) * 2 powi k"
      using m by (intro mult_strict_right_mono) (simp_all only: of_int_less_iff, simp)
    also have "\<dots> = 2 powi (53 + k)" by (simp add: power_int_add)
    finally show ?thesis .
  qed
  then have "binade x < 53 + k" using x by (intro binade_less)
  with k have jk: "j \<le> k" by (simp add: j_def)
  define n where "n = m * 2 ^ nat (k - j)"
  have xn: "x / 2 powi j = of_int n"
  proof -
    have "(2::rat) powi k = 2 powi (k - j) * 2 powi j" by (simp add: power_int_add [symmetric])
    moreover have "(2::rat) powi (k - j) = 2 ^ nat (k - j)" using jk by (simp add: power_int_def)
    ultimately show ?thesis by (simp add: x_def n_def)
  qed
  have "round_half_even (x / 2 powi j) = n" unfolding xn by (rule round_half_even_unique) simp
  moreover have "of_int n * 2 powi j = x" using xn by (simp add: field_simps)
  ultimately show ?thesis using x fin unfolding x_def [symmetric]
    by (simp add: round64_def Let_def q)
qed

lemma round64_int: "\<bar>m\<bar> < 2 ^ 53 \<Longrightarrow> round64 (of_int m) = Fin (of_int m)"
proof -
  assume m: "\<bar>m\<bar> < 2 ^ 53"
  then have "(of_int \<bar>m\<bar> :: rat) < of_int (2 ^ 53)" by (simp only: of_int_less_iff)
  then have "\<bar>of_int m * 2 powi 0\<bar> < overflow_threshold"
    by (simp add: overflow_threshold_def)
  from round64_representable [OF m _ this] show ?thesis by simp
qed


text \<open>The arithmetic of \<open>durationInYears\<close> at 120, 125 and 6 months.\<close>

lemma years_120:
  "num_divide (Math_round (num_times (num_divide (Fin 120) 12) (Fin 10))) 10 = Fin 10"
proof -
  have d1: "num_divide (Fin 120) 12 = Fin 10"
    using round64_int [of 10] by (simp add: num_divide_def)
  have d2: "num_times (Fin 10) (Fin 10) = Fin 100"
    using round64_int [of 100] by (simp add: num_times_def)
  have d3: "Math_round (Fin 100) = Fin 100"
    by (simp add: Math_round_def floor_eq_iff)
  have d4: "num_divide (Fin 100) 10 = Fin 10"
    using round64_int [of 10] by (simp add: num_divide_def)
  show ?thesis by (simp only: d1 d2 d3 d4)
qed

lemma years_6:
  "num_divide (Math_round (num_times (num_divide (Fin 6) 12) (Fin 10))) 10 = Fin (1 / 2)"
proof -
  have half: "round64 (1 / 2) = Fin (1 / 2)"
    using round64_representable [of 1 "- 1"] by (simp add: overflow_threshold_def)
  have d1: "num_divide (Fin 6) 12 = Fin (1 / 2)"
    using half by (simp add: num_divide_def)
  have d2: "num_times (Fin (1 / 2)) (Fin 10) = Fin 5"
    using round64_int [of 5] by (simp add: num_times_def)
  have d3: "Math_round (Fin 5) = Fin 5"
    by (simp add: Math_round_def floor_eq_iff)
  have d4: "num_divide (Fin 5) 10 = Fin (1 / 2)"
    using half by (simp add: num_divide_def)
  show ?thesis by (simp only: d1 d2 d3 d4)
qed




section \<open>The property-transfer-tax tool\<close>




text \<open>
  C1. The tools are to return an envelope on every input and never to let a throw reach
  the caller. \<open>getPropertyTransferTax\<close> does not: on a negative house price the schema's
  validation error leaves the function.
\<close>

theorem getPropertyTransferTax_negative_throws:
  "getPropertyTransferTax rt (JObj [(''housePrice'', JNum (Fin (- 1)))]) =
     Inl (Error (zodMessage rt [ZodIssue too_small [Key ''housePrice'']]))"
  by (simp add: getPropertyTransferTax_def parse_def HouseTaxQuotaRequestSchema_def
      z_number_min0_def num_less_def num_greater_def)

section \<open>The interest-rate tool: validation\<close>

lemma z_enum_Inr: "z_enum vals path v = Inr s \<longleftrightarrow> v = JStr s \<and> s \<in> set vals"
  by (cases v) (auto simp: z_enum_def)

lemma z_enum_isl: "isl (z_enum vals path v) \<longleftrightarrow> \<not> (\<exists>s. v = JStr s \<and> s \<in> set vals)"
  by (cases v) (auto simp: z_enum_def)

text \<open>
  An object is accepted exactly when \<open>product\<close> and \<open>type\<close> are strings of the two
  lists and \<open>discounts\<close> and \<open>inactive\<close> pass their schemas.
\<close>

lemma InterestRateRequestSchema_of_accepts:
  "\<not> isl (InterestRateRequestSchema_of products types (JObj kvs)) \<longleftrightarrow>
   (\<exists>p. lookup kvs ''product'' = JStr p \<and> p \<in> set products)
   \<and> (\<exists>t. lookup kvs ''type'' = JStr t \<and> t \<in> set types)
   \<and> \<not> isl (z_default (JArr []) (z_optional (z_array discount_schema))
                     [Key ''discounts''] (lookup kvs ''discounts''))
   \<and> \<not> isl (z_default (JBool False) (z_optional z_boolean)
                     [Key ''inactive''] (lookup kvs ''inactive''))"
  by (simp add: InterestRateRequestSchema_of_def Let_def z_enum_isl)

text \<open>
  The second copy of the module accepts the two products and the three repayment types,
  and nothing else.
\<close>

lemma InterestRateRequestSchema_part_000_accepts:
  "\<not> isl (InterestRateRequestSchema_part_000 (JObj [(''product'', JStr p), (''type'', JStr t)])) \<longleftrightarrow>
   p \<in> {''BUDGET'', ''WONING''} \<and> t \<in> {''ANNUITAIR'', ''LINEAIR'', ''AFLOSSINGSVRIJ''}"
  unfolding InterestRateRequestSchema_part_000_def InterestRateRequestSchema_of_accepts
  by (simp add: z_default_def z_optional_def z_array_def z_boolean_def)

text \<open>\<open>src/tools.ts\<close> accepts one product and one repayment type.\<close>

lemma InterestRateRequestSchema_tools_ts_accepts:
  "\<not> isl (InterestRateRequestSchema_tools_ts (JObj [(''product'', JStr p), (''type'', JStr t)])) \<longleftrightarrow>
   p = ''BUDGET'' \<and> t = ''ANNUITAIR''"
  unfolding InterestRateRequestSchema_tools_ts_def InterestRateRequestSchema_of_accepts
  by (simp add: z_default_def z_optional_def z_array_def z_boolean_def)

text \<open>A rejected input is answered with the failure envelope, and no request is issued.\<close>

lemma calculateInterestRate_with_rejected:
  "schema args = Inl issues \<Longrightarrow>
   calculateInterestRate_with schema rt fetch args =
     ([], failure ''Failed to calculate interest rate: '' (Error (zodMessage rt issues)))"
  by (simp add: calculateInterestRate_with_def parse_def)

text \<open>
  C2. The schema is to accept every product of \<open>{BUDGET, WONING}\<close> and every repayment
  type of \<open>{ANNUITAIR, LINEAIR, AFLOSSINGSVRIJ}\<close>. The schema of \<open>src/tools.ts\<close>, the
  module the server registers, rejects the product \<open>WONING\<close>: the tool answers with the
  failure envelope and issues no request.
\<close>

theorem calculateInterestRate_tools_ts_rejects_WONING:
  "calculateInterestRate_tools_ts rt fetch
     (JObj [(''product'', JStr ''WONING''), (''type'', JStr ''ANNUITAIR'')]) =
   ([], failure ''Failed to calculate interest rate: ''
          (Error (zodMessage rt [ZodIssue invalid_enum_value [Key ''product'']])))"
  by (simp add: calculateInterestRate_tools_ts_def calculateInterestRate_with_def
      InterestRateRequestSchema_tools_ts_def
      InterestRateRequestSchema_of_def schema_defs Let_def)

section \<open>The interest-rate tool: the request\<close>

lemma URL_toString_inactive:
  "URL_toString base [(''inactive'', ''true'')] = base @ ''?inactive=true''"
  by (simp add: URL_toString_def urlencoded_def urlencoded_char_def urlencoded_unreserved_def)

text \<open>
  C3. For every input the schema accepts, the tool issues one \<open>POST\<close> request whose body
  has exactly the three members \<open>product\<close>, \<open>type\<close> and \<open>discounts\<close> of the validated
  request (the repayment type travels under the key \<open>type\<close>; the \<open>inactive\<close> flag is not
  in the body), and whose URL is the endpoint followed by \<open>?inactive=true\<close> when the
  flag is set, and the endpoint alone when it is not.
\<close>

theorem interestRate_request:
  assumes "schema args = Inr r"
  shows "fst (calculateInterestRate_with schema rt fetch args) =
     [\<lparr> req_url = (if inactive_or_false r then interestRateEndpoint @ ''?inactive=true''
                    else interestRateEndpoint),
         req_method = ''POST'',
         req_headers = [(''Content-Type'', ''application/json'')],
         req_body = Some (JObj [
           (''product'', JStr (r_product r)),
           (''type'', JStr (r_type r)),
           (''discounts'', JArr (map discount_value (discounts_or_empty r)))]) \<rparr>]"
  using assms
  by (simp add: calculateInterestRate_with_def parse_def Let_def interestRateFetch_def
      requestBody_def URL_toString_inactive)
     (simp add: URL_toString_def)

text \<open>A request with both discounts and the flag set, and one with the defaults.\<close>

theorem interestRate_request_witness:
  "fst (calculateInterestRate_part_000 sample_runtime (fetch_returning (json_response JNull))
         (JObj [(''product'', JStr ''WONING''), (''type'', JStr ''LINEAIR''),
                (''discounts'', JArr [JObj [(''type'', JStr ''BANK_ACCOUNT'')],
                                      JObj [(''type'', JStr ''SUSTAINABILITY''), (''label'', JStr ''B'')]]),
                (''inactive'', JBool True)])) =
     [\<lparr> req_url = interestRateEndpoint @ ''?inactive=true'',
         req_method = ''POST'',
         req_headers = [(''Content-Type'', ''application/json'')],
         req_body = Some (JObj [
           (''product'', JStr ''WONING''),
           (''type'', JStr ''LINEAIR''),
           (''discounts'', JArr [JObj [(''type'', JStr ''BANK_ACCOUNT'')],
                                 JObj [(''type'', JStr ''SUSTAINABILITY''), (''label'', JStr ''B'')]])]) \<rparr>]
   \<and> fst (calculateInterestRate_part_000 sample_runtime (fetch_returning (json_response JNull))
         (JObj [(''product'', JStr ''BUDGET''), (''type'', JStr ''ANNUITAIR'')])) =
     [\<lparr> req_url = interestRateEndpoint,
         req_method = ''POST'',
         req_headers = [(''Content-Type'', ''application/json'')],
         req_body = Some (JObj [
           (''product'', JStr ''BUDGET''),
           (''type'', JStr ''ANNUITAIR''),
           (''discounts'', JArr [])]) \<rparr>]"
  using interestRate_request [of InterestRateRequestSchema_part_000
      "JObj [(''product'', JStr ''WONING''), (''type'', JStr ''LINEAIR''),
                (''discounts'', JArr [JObj [(''type'', JStr ''BANK_ACCOUNT'')],
                                      JObj [(''type'', JStr ''SUSTAINABILITY''), (''label'', JStr ''B'')]]),
                (''inactive'', JBool True)]"
      "\<lparr> r_product = ''WONING'', r_type = ''LINEAIR'',
         r_discounts = Some [BANK_ACCOUNT, SUSTAINABILITY ''B''], r_inactive = Some True \<rparr>"
      sample_runtime "fetch_returning (json_response JNull)"]
    interestRate_request [of InterestRateRequestSchema_part_000
      "JObj [(''product'', JStr ''BUDGET''), (''type'', JStr ''ANNUITAIR'')]"
      "\<lparr> r_product = ''BUDGET'', r_type = ''ANNUITAIR'',
         r_discounts = Some [], r_inactive = Some False \<rparr>"
      sample_runtime "fetch_returning (json_response JNull)"]
  by (simp add: calculateInterestRate_part_000_def InterestRateRequestSchema_part_000_def
      InterestRateRequestSchema_of_def schema_defs Let_def discounts_or_empty_def
      inactive_or_false_def discount_value_def)

text \<open>
  The claim as first stated names the members of the body \<open>product\<close>, \<open>repaymentType\<close>
  and \<open>discounts\<close>; the body has no member \<open>repaymentType\<close>.
\<close>

theorem interestRate_request_counterexample:
  "map request_body_keys
     (fst (calculateInterestRate_part_000 sample_runtime (fetch_returning (json_response JNull))
         (JObj [(''product'', JStr ''BUDGET''), (''type'', JStr ''ANNUITAIR'')])))
   = [[''product'', ''type'', ''discounts'']]
   \<and> map request_body_keys
     (fst (calculateInterestRate_part_000 sample_runtime (fetch_returning (json_response JNull))
         (JObj [(''product'', JStr ''BUDGET''), (''type'', JStr ''ANNUITAIR'')])))
   \<noteq> [[''product'', ''repaymentType'', ''discounts'']]"
  by (simp add: calculateInterestRate_part_000_def calculateInterestRate_with_def
      InterestRateRequestSchema_part_000_def
      InterestRateRequestSchema_of_def schema_defs Let_def discounts_or_empty_def
      inactive_or_false_def discount_value_def interestRateFetch_def requestBody_def
      request_body_keys_def)

section \<open>The maximum-mortgage tool: the request\<close>

lemma digit_unreserved: "d < 10 \<Longrightarrow> urlencoded_unreserved (digit_char d)"
  by (auto simp: urlencoded_unreserved_def digit_char_def numeral_eq_Suc less_Suc_eq)

lemma string_of_nat_unreserved: "list_all urlencoded_unreserved (string_of_nat n)"
proof (induction n rule: string_of_nat.induct)
  case (1 n)
  show ?case
  proof (cases "n < 10")
    case True
    then show ?thesis by (subst string_of_nat.simps) (simp add: digit_unreserved)
  next
    case False
    with 1 show ?thesis by (subst string_of_nat.simps) (simp add: digit_unreserved)
  qed
qed

lemma urlencoded_unreserved_id: "list_all urlencoded_unreserved s \<Longrightarrow> urlencoded s = s"
  by (induction s) (simp_all add: urlencoded_def urlencoded_char_def)

lemma urlencoded_string_of_nat [simp]: "urlencoded (string_of_nat n) = string_of_nat n"
  by (rule urlencoded_unreserved_id [OF string_of_nat_unreserved])

lemma Number_toString_nat:
  "n \<le> 2 ^ 53 \<Longrightarrow> Number_toString rt (Fin (of_nat n)) = string_of_nat n"
proof -
  assume "n \<le> 2 ^ 53"
  then have "(of_nat n :: rat) \<le> of_nat (2 ^ 53)" by (simp only: of_nat_le_iff)
  then have "(of_nat n :: rat) \<le> 2 ^ 53" by simp
  then show ?thesis by (simp add: Number_toString_def)
qed

lemma urlencoded_names [simp]:
  "urlencoded ''mainIncome'' = ''mainIncome''" "urlencoded ''partnerIncome'' = ''partnerIncome''"
  by (simp_all add: urlencoded_def urlencoded_char_def urlencoded_unreserved_def)

lemma z_number_min0_Inr: "z_number_min0 path v = Inr n \<Longrightarrow> v = JNum n"
  by (cases v) (simp_all add: z_number_min0_def split: if_splits)

lemma z_optional_number_Inr:
  "z_optional z_number_min0 path v = Inr p \<Longrightarrow>
   (case p of None \<Rightarrow> v = JUndefined | Some n \<Rightarrow> v = JNum n)"
  by (auto simp: z_optional_def split: if_splits sum.splits option.splits dest: z_number_min0_Inr)

lemma MaximumMortgageRequestSchema_Inr:
  assumes "MaximumMortgageRequestSchema args = Inr r"
  shows "\<exists>kvs. args = JObj kvs
     \<and> z_number_min0 [Key ''mainIncome''] (lookup kvs ''mainIncome'') = Inr (r_mainIncome r)
     \<and> z_optional z_number_min0 [Key ''partnerIncome''] (lookup kvs ''partnerIncome'')
         = Inr (r_partnerIncome r)"
proof -
  from assms obtain kvs where args: "args = JObj kvs"
    by (cases args) (simp_all add: MaximumMortgageRequestSchema_def)
  show ?thesis
  proof (cases "z_number_min0 [Key ''mainIncome''] (lookup kvs ''mainIncome'')")
    case (Inl a)
    with assms args show ?thesis by (simp add: MaximumMortgageRequestSchema_def Let_def)
  next
    case m: (Inr m)
    show ?thesis
    proof (cases "z_optional z_number_min0 [Key ''partnerIncome''] (lookup kvs ''partnerIncome'')")
      case (Inl a)
      with assms args show ?thesis by (simp add: MaximumMortgageRequestSchema_def Let_def)
    next
      case (Inr p)
      with m assms args show ?thesis
        by (auto simp: MaximumMortgageRequestSchema_def Let_def)
    qed
  qed
qed

lemma string_of_nat_examples:
  "string_of_nat 50000 = ''50000''" "string_of_nat 30000 = ''30000''"
  by (simp_all add: string_of_nat.simps digit_char_def)

text \<open>
  C8. For every input the schema accepts, the URL of the \<open>GET\<close> request is the endpoint,
  \<open>?mainIncome=\<close> and the text of \<open>mainIncome\<close>, followed by \<open>&partnerIncome=\<close> and the
  text of \<open>partnerIncome\<close> exactly when the input has that member. The text is that of
  \<open>toString\<close>, form-urlencoded; for an integer up to \<open>2^53\<close> it is the decimal numeral.
\<close>

theorem maximumMortgage_query:
  assumes "MaximumMortgageRequestSchema args = Inr r"
  shows "map req_url (fst (calculateMaximumMortgage rt fetch args)) =
     [maximumMortgageEndpoint @ ''?mainIncome='' @ urlencoded (Number_toString rt (r_mainIncome r))
        @ (case r_partnerIncome r of
             None \<Rightarrow> []
           | Some p \<Rightarrow> ''&partnerIncome='' @ urlencoded (Number_toString rt p))]
     \<and> JNum (r_mainIncome r) = member_value args ''mainIncome''
     \<and> (case r_partnerIncome r of
           None \<Rightarrow> member_value args ''partnerIncome'' = JUndefined
         | Some p \<Rightarrow> member_value args ''partnerIncome'' = JNum p)
     \<and> (\<forall>n \<le> 2 ^ 53. urlencoded (Number_toString rt (Fin (of_nat n))) = string_of_nat n)"
proof -
  from MaximumMortgageRequestSchema_Inr [OF assms] obtain kvs where args: "args = JObj kvs"
    and m: "z_number_min0 [Key ''mainIncome''] (lookup kvs ''mainIncome'') = Inr (r_mainIncome r)"
    and p: "z_optional z_number_min0 [Key ''partnerIncome''] (lookup kvs ''partnerIncome'')
         = Inr (r_partnerIncome r)"
    by blast
  have url: "map req_url (fst (calculateMaximumMortgage rt fetch args)) =
     [maximumMortgageEndpoint @ ''?mainIncome='' @ urlencoded (Number_toString rt (r_mainIncome r))
        @ (case r_partnerIncome r of
             None \<Rightarrow> []
           | Some p \<Rightarrow> ''&partnerIncome='' @ urlencoded (Number_toString rt p))]"
    using assms
    by (simp add: calculateMaximumMortgage_def parse_def Let_def maximumMortgageFetch_def
        maximumMortgageParams_def URL_toString_def split: option.splits)
  from z_number_min0_Inr [OF m] have main: "JNum (r_mainIncome r) = member_value args ''mainIncome''"
    by (simp add: args)
  from z_optional_number_Inr [OF p]
  have partner: "(case r_partnerIncome r of
           None \<Rightarrow> member_value args ''partnerIncome'' = JUndefined
         | Some p \<Rightarrow> member_value args ''partnerIncome'' = JNum p)"
    by (simp add: args split: option.splits)
  have "\<forall>n \<le> 2 ^ 53. urlencoded (Number_toString rt (Fin (of_nat n))) = string_of_nat n"
    by (simp add: Number_toString_nat)
  with url main partner show ?thesis by blast
qed

text \<open>
  Incomes of 50000 and 30000 give \<open>?mainIncome=50000&partnerIncome=30000\<close>; without a
  partner income the query is \<open>?mainIncome=50000\<close>.
\<close>

theorem maximumMortgage_query_witness:
  "map req_url (fst (calculateMaximumMortgage sample_runtime (fetch_returning (json_response JNull))
      (JObj [(''mainIncome'', JNum (Fin 50000)), (''partnerIncome'', JNum (Fin 30000))]))) =
     [maximumMortgageEndpoint @ ''?mainIncome=50000&partnerIncome=30000'']
   \<and> map req_url (fst (calculateMaximumMortgage sample_runtime (fetch_returning (json_response JNull))
      (JObj [(''mainIncome'', JNum (Fin 50000))]))) =
     [maximumMortgageEndpoint @ ''?mainIncome=50000'']"
  using maximumMortgage_query [of
      "JObj [(''mainIncome'', JNum (Fin 50000)), (''partnerIncome'', JNum (Fin 30000))]"
      "\<lparr> r_mainIncome = Fin 50000, r_partnerIncome = Some (Fin 30000) \<rparr>"
      sample_runtime "fetch_returning (json_response JNull)"]
    maximumMortgage_query [of
      "JObj [(''mainIncome'', JNum (Fin 50000))]"
      "\<lparr> r_mainIncome = Fin 50000, r_partnerIncome = None \<rparr>"
      sample_runtime "fetch_returning (json_response JNull)"]
    Number_toString_nat [of 50000 sample_runtime] Number_toString_nat [of 30000 sample_runtime]
  by (simp add: MaximumMortgageRequestSchema_def schema_defs Let_def string_of_nat_examples
      urlencoded_def urlencoded_char_def urlencoded_unreserved_def)

section \<open>Missing lists in the payload\<close>

lemma normalizedPeriods_missing:
  "\<not> nullish data \<Longrightarrow> nullish (member_value data ''periods'') \<Longrightarrow>
   normalizedPeriods rt data = Inr (JArr [])"
  by (simp add: normalizedPeriods_def or_else_def falsy_def)

lemma interestRateData_missing_periods:
  assumes "\<not> nullish data" and "nullish (member_value data ''periods'')"
  shows "interestRateData rt product type discounts inactive data =
     Inr (JObj [
       (''bridgingCredit'', JObj [
          (''rate'', member_value data ''overbruggingskrediet''),
          (''rateSheetDate'', member_value data ''renteblad''),
          (''options'', member_value data ''overbruggingskredieten'')]),
       (''periods'', JArr []),
       (''interestRate'', member_value data ''interestRate''),
       (''effectiveRate'', member_value data ''effectiveRate''),
       (''baseRate'', member_value data ''baseRate''),
       (''appliedDiscounts'', member_value data ''appliedDiscounts''),
       (''calculationDate'', member_value data ''calculationDate''),
       (''requestParameters'', JObj [
          (''product'', JStr product),
          (''type'', JStr type),
          (''discounts'', JArr (map discount_value discounts)),
          (''inactive'', JBool inactive)])])"
  using assms by (simp add: interestRateData_def normalizedPeriods_missing)

lemma rates_missing:
  "nullish rates \<Longrightarrow> dutchNationalMortgageGuarantee rt rates = Inr JUndefined"
  "nullish rates \<Longrightarrow> lifeTimeValue rt rates = Inr JUndefined"
  by (simp_all add: dutchNationalMortgageGuarantee_def lifeTimeValue_def)

text \<open>
  C4. On a payload (not \<open>null\<close>) without \<open>periods\<close>, the tool returns the success
  envelope with \<open>periods = []\<close>; the other members, the lists \<open>overbruggingskredieten\<close>
  and \<open>appliedDiscounts\<close> among them, are passed on as they are, \<open>undefined\<close> when
  missing. A period without \<open>rates\<close> is normalised without a throw, and both members of
  its \<open>rates\<close> record are \<open>undefined\<close>, not an empty list.
\<close>

theorem missing_lists:
  "(schema args = Inr r
     \<and> fetch (interestRateFetch (r_product r) (r_type r) (discounts_or_empty r) (inactive_or_false r))
         = Inr resp
     \<and> resp_ok resp \<and> resp_json resp = Inr data
     \<and> \<not> nullish data \<and> nullish (member_value data ''periods'')
    \<longrightarrow> snd (calculateInterestRate_with schema rt fetch args) =
     success (JObj [
       (''bridgingCredit'', JObj [
          (''rate'', member_value data ''overbruggingskrediet''),
          (''rateSheetDate'', member_value data ''renteblad''),
          (''options'', member_value data ''overbruggingskredieten'')]),
       (''periods'', JArr []),
       (''interestRate'', member_value data ''interestRate''),
       (''effectiveRate'', member_value data ''effectiveRate''),
       (''baseRate'', member_value data ''baseRate''),
       (''appliedDiscounts'', member_value data ''appliedDiscounts''),
       (''calculationDate'', member_value data ''calculationDate''),
       (''requestParameters'', JObj [
          (''product'', JStr (r_product r)),
          (''type'', JStr (r_type r)),
          (''discounts'', JArr (map discount_value (discounts_or_empty r))),
          (''inactive'', JBool (inactive_or_false r))])]))
   \<and> (\<not> nullish period \<and> nullish (member_value period ''rates'')
       \<and> ToNumber rt (member_value period ''duration'') = Inr n
    \<longrightarrow> normalizePeriod rt period =
     Inr (JObj [
       (''duration'', member_value period ''duration''),
       (''durationInYears'', JNum (num_divide (Math_round (num_times (num_divide n 12) (Fin 10))) 10)),
       (''inactive'', member_value period ''inactive''),
       (''type'', member_value period ''type''),
       (''reflectionPeriod'', member_value period ''reflectionPeriod''),
       (''rates'', JObj [
          (''dutchNationalMortgageGuarantee'', JUndefined),
          (''lifeTimeValue'', JUndefined)])]))"
proof (intro conjI impI)
  assume "schema args = Inr r
     \<and> fetch (interestRateFetch (r_product r) (r_type r) (discounts_or_empty r) (inactive_or_false r))
         = Inr resp
     \<and> resp_ok resp \<and> resp_json resp = Inr data
     \<and> \<not> nullish data \<and> nullish (member_value data ''periods'')"
  then show "snd (calculateInterestRate_with schema rt fetch args) =
     success (JObj [
       (''bridgingCredit'', JObj [
          (''rate'', member_value data ''overbruggingskrediet''),
          (''rateSheetDate'', member_value data ''renteblad''),
          (''options'', member_value data ''overbruggingskredieten'')]),
       (''periods'', JArr []),
       (''interestRate'', member_value data ''interestRate''),
       (''effectiveRate'', member_value data ''effectiveRate''),
       (''baseRate'', member_value data ''baseRate''),
       (''appliedDiscounts'', member_value data ''appliedDiscounts''),
       (''calculationDate'', member_value data ''calculationDate''),
       (''requestParameters'', JObj [
          (''product'', JStr (r_product r)),
          (''type'', JStr (r_type r)),
          (''discounts'', JArr (map discount_value (discounts_or_empty r))),
          (''inactive'', JBool (inactive_or_false r))])])"
    by (simp add: calculateInterestRate_with_def parse_def Let_def interestRateResponse_def
        interestRateData_missing_periods)
next
  assume "\<not> nullish period \<and> nullish (member_value period ''rates'')
       \<and> ToNumber rt (member_value period ''duration'') = Inr n"
  then show "normalizePeriod rt period =
     Inr (JObj [
       (''duration'', member_value period ''duration''),
       (''durationInYears'', JNum (num_divide (Math_round (num_times (num_divide n 12) (Fin 10))) 10)),
       (''inactive'', member_value period ''inactive''),
       (''type'', member_value period ''type''),
       (''reflectionPeriod'', member_value period ''reflectionPeriod''),
       (''rates'', JObj [
          (''dutchNationalMortgageGuarantee'', JUndefined),
          (''lifeTimeValue'', JUndefined)])])"
    by (simp add: normalizePeriod_def durationInYears_def rates_missing)
qed

text \<open>An empty payload, and a period of six months without \<open>rates\<close>.\<close>

theorem missing_lists_witness:
  "snd (calculateInterestRate_part_000 sample_runtime (fetch_returning (json_response (JObj [])))
         (JObj [(''product'', JStr ''BUDGET''), (''type'', JStr ''ANNUITAIR'')])) =
     success (JObj [
       (''bridgingCredit'', JObj [
          (''rate'', JUndefined), (''rateSheetDate'', JUndefined), (''options'', JUndefined)]),
       (''periods'', JArr []),
       (''interestRate'', JUndefined),
       (''effectiveRate'', JUndefined),
       (''baseRate'', JUndefined),
       (''appliedDiscounts'', JUndefined),
       (''calculationDate'', JUndefined),
       (''requestParameters'', JObj [
          (''product'', JStr ''BUDGET''),
          (''type'', JStr ''ANNUITAIR''),
          (''discounts'', JArr []),
          (''inactive'', JBool False)])])
   \<and> normalizePeriod sample_runtime (JObj [(''duration'', JNum (Fin 6))]) =
     Inr (JObj [
       (''duration'', JNum (Fin 6)),
       (''durationInYears'', JNum (Fin (1 / 2))),
       (''inactive'', JUndefined),
       (''type'', JUndefined),
       (''reflectionPeriod'', JUndefined),
       (''rates'', JObj [
          (''dutchNationalMortgageGuarantee'', JUndefined),
          (''lifeTimeValue'', JUndefined)])])"
  using missing_lists [of InterestRateRequestSchema_part_000
      "JObj [(''product'', JStr ''BUDGET''), (''type'', JStr ''ANNUITAIR'')]"
      "\<lparr> r_product = ''BUDGET'', r_type = ''ANNUITAIR'',
         r_discounts = Some [], r_inactive = Some False \<rparr>"
      "fetch_returning (json_response (JObj []))"
      "json_response (JObj [])" "JObj []" sample_runtime
      "JObj [(''duration'', JNum (Fin 6))]" "Fin 6"]
  by (simp add: calculateInterestRate_part_000_def
      InterestRateRequestSchema_part_000_def InterestRateRequestSchema_of_def schema_defs Let_def
      discounts_or_empty_def inactive_or_false_def
      fetch_returning_def json_response_def ToNumber_def years_6)

lemmas eval_defs =
  calculateInterestRate_part_000_def calculateInterestRate_with_def
  InterestRateRequestSchema_part_000_def InterestRateRequestSchema_of_def schema_defs Let_def
  discounts_or_empty_def inactive_or_false_def discount_value_def
  fetch_returning_def json_response_def interestRateResponse_def interestRateData_def
  normalizedPeriods_def arrayMethod_def normalizePeriod_def durationInYears_def ToNumber_def
  dutchNationalMortgageGuarantee_def lifeTimeValue_def or_else_def falsy_def

text \<open>
  The claim as first stated, an empty sequence for every missing list, fails for a
  period without \<open>rates\<close>: its \<open>lifeTimeValue\<close> is not \<open>[]\<close>.
\<close>

theorem missing_rates_counterexample:
  "member_value (element (member_value (envelope_data (snd
      (calculateInterestRate_part_000 sample_runtime
         (fetch_returning (json_response (JObj [(''periods'', JArr [JObj [(''duration'', JNum (Fin 120))]])])))
         (JObj [(''product'', JStr ''BUDGET''), (''type'', JStr ''ANNUITAIR'')]))))
      ''periods'') 0) ''rates''
   = JObj [(''dutchNationalMortgageGuarantee'', JUndefined), (''lifeTimeValue'', JUndefined)]
   \<and> member_value (member_value (element (member_value (envelope_data (snd
      (calculateInterestRate_part_000 sample_runtime
         (fetch_returning (json_response (JObj [(''periods'', JArr [JObj [(''duration'', JNum (Fin 120))]])])))
         (JObj [(''product'', JStr ''BUDGET''), (''type'', JStr ''ANNUITAIR'')]))))
      ''periods'') 0) ''rates'') ''lifeTimeValue''
   \<noteq> JArr []"
  by (simp add: eval_defs envelope_data_def element_def success_def years_120)

section \<open>Normalising the periods\<close>

lemma hasType_ok [simp]: "\<not> nullish r \<Longrightarrow> hasType rt tag r = Inr (member_value r ''type'' = JStr tag)"
  by (simp add: hasType_def)

lemma hasType_nullish: "nullish r \<Longrightarrow> hasType rt tag r = Inl (Error (typeErrorMessage rt r ''type''))"
  by (simp add: hasType_def getProp_def)

lemma findE_find:
  "list_all (\<lambda>r. \<not> nullish r) rs \<Longrightarrow>
   findE (hasType rt tag) rs = Inr (find (\<lambda>r. member_value r ''type'' = JStr tag) rs)"
  by (induction rs) simp_all

lemma filterE_filter:
  "list_all (\<lambda>r. \<not> nullish r) rs \<Longrightarrow>
   filterE (hasType rt tag) rs = Inr (filter (\<lambda>r. member_value r ''type'' = JStr tag) rs)"
  by (induction rs) simp_all

text \<open>\<open>filter\<close> visits every entry, so it only returns when no entry is \<open>null\<close>.\<close>

lemma filterE_returns:
  "filterE (hasType rt tag) rs = Inr ys \<Longrightarrow> list_all (\<lambda>r. \<not> nullish r) rs"
proof (induction rs arbitrary: ys)
  case Nil
  then show ?case by simp
next
  case (Cons r rs)
  show ?case
  proof (cases "nullish r")
    case True
    with Cons.prems show ?thesis by (simp add: hasType_nullish)
  next
    case False
    with Cons.prems obtain zs where "filterE (hasType rt tag) rs = Inr zs"
      by (cases "filterE (hasType rt tag) rs") simp_all
    with Cons.IH False show ?thesis by simp
  qed
qed

lemma ltvEntry_ok [simp]: "\<not> nullish r \<Longrightarrow>
  ltvEntry rt r = Inr (JObj [(''range'', member_value r ''ltv''), (''rate'', member_value r ''value'')])"
  by (simp add: ltvEntry_def)

lemma mapE_map:
  "list_all (\<lambda>r. \<not> nullish r) rs \<Longrightarrow>
   mapE (ltvEntry rt) rs =
   Inr (map (\<lambda>r. JObj [(''range'', member_value r ''ltv''), (''rate'', member_value r ''value'')]) rs)"
  by (induction rs) simp_all

lemma list_all_filter: "list_all P rs \<Longrightarrow> list_all P (filter Q rs)"
  by (induction rs) simp_all

lemma nhg_ok:
  assumes "list_all (\<lambda>r. \<not> nullish r) rs"
  shows "dutchNationalMortgageGuarantee rt (JArr rs) =
     Inr (case find (\<lambda>r. member_value r ''type'' = JStr ''NHG'') rs of
            None \<Rightarrow> JUndefined | Some r \<Rightarrow> member_value r ''value'')"
  using assms
  by (simp add: dutchNationalMortgageGuarantee_def arrayMethod_def findE_find split: option.splits)

lemma ltv_ok:
  assumes "list_all (\<lambda>r. \<not> nullish r) rs"
  shows "lifeTimeValue rt (JArr rs) =
     Inr (JArr (map (\<lambda>r. JObj [(''range'', member_value r ''ltv''), (''rate'', member_value r ''value'')])
                 (filter (\<lambda>r. member_value r ''type'' = JStr ''LTV'') rs)))"
  using assms
  by (simp add: lifeTimeValue_def arrayMethod_def filterE_filter mapE_map list_all_filter)

lemma lifeTimeValue_returns:
  assumes "lifeTimeValue rt (JArr rs) = Inr v"
  shows "list_all (\<lambda>r. \<not> nullish r) rs"
proof (cases "filterE (hasType rt ''LTV'') rs")
  case (Inl e)
  with assms show ?thesis by (simp add: lifeTimeValue_def arrayMethod_def)
next
  case (Inr ys)
  then show ?thesis by (rule filterE_returns)
qed

text \<open>What a normalised period is, when the callback returns.\<close>

lemma normalizePeriod_returns:
  assumes "normalizePeriod rt period = Inr out"
  shows "\<not> nullish period \<and>
     (\<exists>n nhg ltv. ToNumber rt (member_value period ''duration'') = Inr n
        \<and> dutchNationalMortgageGuarantee rt (member_value period ''rates'') = Inr nhg
        \<and> lifeTimeValue rt (member_value period ''rates'') = Inr ltv
        \<and> out = JObj [
             (''duration'', member_value period ''duration''),
             (''durationInYears'',
                JNum (num_divide (Math_round (num_times (num_divide n 12) (Fin 10))) 10)),
             (''inactive'', member_value period ''inactive''),
             (''type'', member_value period ''type''),
             (''reflectionPeriod'', member_value period ''reflectionPeriod''),
             (''rates'', JObj [
                (''dutchNationalMortgageGuarantee'', nhg),
                (''lifeTimeValue'', ltv)])])"
proof (cases "nullish period")
  case True
  with assms show ?thesis by (simp add: normalizePeriod_def getProp_def)
next
  case False
  with assms show ?thesis
    by (auto simp: normalizePeriod_def durationInYears_def bindE_def split: sum.splits)
qed

lemma normalizePeriod_rates:
  assumes "normalizePeriod rt period = Inr out" and "member_value period ''rates'' = JArr rs"
  shows "member_value out ''rates'' = JObj [
          (''dutchNationalMortgageGuarantee'',
             (case find (\<lambda>r. member_value r ''type'' = JStr ''NHG'') rs of
                None \<Rightarrow> JUndefined | Some r \<Rightarrow> member_value r ''value'')),
          (''lifeTimeValue'',
             JArr (map (\<lambda>r. JObj [(''range'', member_value r ''ltv''), (''rate'', member_value r ''value'')])
                 (filter (\<lambda>r. member_value r ''type'' = JStr ''LTV'') rs)))]"
proof -
  from normalizePeriod_returns [OF assms(1)] assms(2) obtain n nhg ltv where
    nhg: "dutchNationalMortgageGuarantee rt (JArr rs) = Inr nhg"
    and ltv: "lifeTimeValue rt (JArr rs) = Inr ltv"
    and out: "out = JObj [
             (''duration'', member_value period ''duration''),
             (''durationInYears'',
                JNum (num_divide (Math_round (num_times (num_divide n 12) (Fin 10))) 10)),
             (''inactive'', member_value period ''inactive''),
             (''type'', member_value period ''type''),
             (''reflectionPeriod'', member_value period ''reflectionPeriod''),
             (''rates'', JObj [
                (''dutchNationalMortgageGuarantee'', nhg),
                (''lifeTimeValue'', ltv)])]"
    by auto
  from lifeTimeValue_returns [OF ltv] have all: "list_all (\<lambda>r. \<not> nullish r) rs" .
  from nhg ltv show ?thesis unfolding out by (simp add: nhg_ok [OF all] ltv_ok [OF all])
qed


text \<open>\<open>map\<close> returns when the callback returned on every element, in order.\<close>

lemma mapE_returns:
  "mapE f xs = Inr ys \<Longrightarrow> length ys = length xs \<and> (\<forall>i < length xs. f (xs ! i) = Inr (ys ! i))"
proof (induction xs arbitrary: ys)
  case Nil
  then show ?case by simp
next
  case (Cons x xs)
  from Cons.prems obtain y where y: "f x = Inr y" by (cases "f x") simp_all
  with Cons.prems obtain zs where zs: "mapE f xs = Inr zs" by (cases "mapE f xs") simp_all
  with y Cons.prems have ys: "ys = y # zs" by simp
  from Cons.IH [OF zs] y show ?case unfolding ys by (auto simp: nth_Cons split: nat.splits)
qed

text \<open>Every success envelope of the interest-rate tool comes from a parsed payload.\<close>

lemma calculateInterestRate_success_inv:
  assumes "snd (calculateInterestRate_with schema rt fetch args) = success d"
  shows "\<exists>r resp data. schema args = Inr r
     \<and> fetch (interestRateFetch (r_product r) (r_type r) (discounts_or_empty r) (inactive_or_false r))
         = Inr resp
     \<and> resp_ok resp \<and> resp_json resp = Inr data
     \<and> interestRateData rt (r_product r) (r_type r) (discounts_or_empty r) (inactive_or_false r) data
         = Inr d"
proof (cases "schema args")
  case (Inl issues)
  with assms show ?thesis by (simp add: calculateInterestRate_with_def parse_def)
next
  case (Inr r)
  show ?thesis
  proof (cases "fetch (interestRateFetch (r_product r) (r_type r) (discounts_or_empty r) (inactive_or_false r))")
    case (Inl e)
    with Inr assms show ?thesis by (simp add: calculateInterestRate_with_def parse_def Let_def)
  next
    case resp: (Inr resp)
    show ?thesis
    proof (cases "resp_ok resp")
      case False
      with Inr resp assms show ?thesis
        by (cases "resp_text resp")
           (simp_all add: calculateInterestRate_with_def parse_def Let_def interestRateResponse_def)
    next
      case True
      show ?thesis
      proof (cases "resp_json resp")
        case (Inl e)
        with True Inr resp assms show ?thesis
          by (simp add: calculateInterestRate_with_def parse_def Let_def interestRateResponse_def)
      next
        case data: (Inr data)
        with True Inr resp assms show ?thesis
          by (cases "interestRateData rt (r_product r) (r_type r) (discounts_or_empty r)
                       (inactive_or_false r) data")
             (simp_all add: calculateInterestRate_with_def parse_def Let_def interestRateResponse_def)
      qed
    qed
  qed
qed

lemma interestRateData_periods:
  assumes "interestRateData rt product type discounts inactive data = Inr d"
    and "member_value data ''periods'' = JArr ps"
  shows "\<exists>qs. mapE (normalizePeriod rt) ps = Inr qs \<and> member_value d ''periods'' = JArr qs"
proof (cases "nullish data")
  case True
  with assms show ?thesis by (simp add: interestRateData_def getProp_def)
next
  case False
  show ?thesis
  proof (cases "mapE (normalizePeriod rt) ps")
    case (Inl e)
    with False assms show ?thesis
      by (simp add: interestRateData_def normalizedPeriods_def arrayMethod_def)
  next
    case (Inr qs)
    with False assms show ?thesis
      by (auto simp: interestRateData_def normalizedPeriods_def arrayMethod_def or_else_def falsy_def)
  qed
qed

text \<open>
  The period at index \<open>i\<close> of a success envelope is the normalised period at index \<open>i\<close>
  of the payload.
\<close>

lemma success_period:
  assumes "interestRateData rt product type discounts inactive data = Inr d"
    and "member_value data ''periods'' = JArr ps" and "i < length ps"
  shows "normalizePeriod rt (ps ! i) = Inr (element (member_value d ''periods'') i)"
proof -
  from interestRateData_periods [OF assms(1,2)] obtain qs
    where qs: "mapE (normalizePeriod rt) ps = Inr qs" and d: "member_value d ''periods'' = JArr qs"
    by blast
  from mapE_returns [OF qs] assms(3) show ?thesis by (simp add: d element_def)
qed

text \<open>
  When the callback returns, \<open>rates\<close> was either missing (\<open>undefined\<close> or \<open>null\<close>) or an
  array without a \<open>null\<close> entry; anything else makes \<open>find\<close> or \<open>filter\<close> throw.
\<close>

lemma normalizePeriod_rates_cases:
  assumes "normalizePeriod rt period = Inr out"
  shows "(nullish (member_value period ''rates'')
           \<and> member_value out ''rates'' =
               JObj [(''dutchNationalMortgageGuarantee'', JUndefined), (''lifeTimeValue'', JUndefined)])
       \<or> (\<exists>rs. member_value period ''rates'' = JArr rs \<and> list_all (\<lambda>r. \<not> nullish r) rs)"
proof -
  from normalizePeriod_returns [OF assms] obtain n nhg ltv where
    nhg: "dutchNationalMortgageGuarantee rt (member_value period ''rates'') = Inr nhg"
    and ltv: "lifeTimeValue rt (member_value period ''rates'') = Inr ltv"
    and out: "out = JObj [
             (''duration'', member_value period ''duration''),
             (''durationInYears'',
                JNum (num_divide (Math_round (num_times (num_divide n 12) (Fin 10))) 10)),
             (''inactive'', member_value period ''inactive''),
             (''type'', member_value period ''type''),
             (''reflectionPeriod'', member_value period ''reflectionPeriod''),
             (''rates'', JObj [
                (''dutchNationalMortgageGuarantee'', nhg),
                (''lifeTimeValue'', ltv)])]"
    by auto
  show ?thesis
  proof (cases "nullish (member_value period ''rates'')")
    case True
    with nhg ltv show ?thesis unfolding out
      by (simp add: dutchNationalMortgageGuarantee_def lifeTimeValue_def)
  next
    case False
    with ltv have "\<exists>rs. member_value period ''rates'' = JArr rs"
      by (cases "member_value period ''rates''") (simp_all add: lifeTimeValue_def arrayMethod_def)
    then obtain rs where rs: "member_value period ''rates'' = JArr rs" by blast
    with ltv have "list_all (\<lambda>r. \<not> nullish r) rs" by (simp add: lifeTimeValue_returns)
    with rs show ?thesis by simp
  qed
qed

text \<open>
  C6. Whenever the interest-rate tool returns its success envelope, the periods of the
  result are the periods of the payload, one for one and in order, and for each of them:
  either the period has no \<open>rates\<close> (\<open>undefined\<close> or \<open>null\<close>), and then both members of the
  normalised \<open>rates\<close> record are \<open>undefined\<close>; or its \<open>rates\<close> is an array without a \<open>null\<close>
  entry, and then the record holds, under \<open>dutchNationalMortgageGuarantee\<close>, the \<open>value\<close> of
  the first entry whose \<open>type\<close> is \<open>'NHG'\<close> (\<open>find\<close> returns the first match, so later
  entries with that tag are dropped; \<open>undefined\<close> when there is none) and, under
  \<open>lifeTimeValue\<close>, the list of all entries whose \<open>type\<close> is \<open>'LTV'\<close>, in order, each
  reshaped to \<open>{ range: r.ltv, rate: r.value }\<close>.
\<close>

theorem period_rates:
  assumes "snd (calculateInterestRate_with schema rt fetch args) = success d"
  shows "\<exists>r resp data. schema args = Inr r
     \<and> fetch (interestRateFetch (r_product r) (r_type r) (discounts_or_empty r) (inactive_or_false r))
         = Inr resp
     \<and> resp_json resp = Inr data
     \<and> (\<forall>ps. member_value data ''periods'' = JArr ps \<longrightarrow>
          (\<exists>qs. member_value d ''periods'' = JArr qs \<and> length qs = length ps
             \<and> (\<forall>i < length ps.
                  (nullish (member_value (ps ! i) ''rates'')
                     \<and> member_value (qs ! i) ''rates'' =
                         JObj [(''dutchNationalMortgageGuarantee'', JUndefined),
                               (''lifeTimeValue'', JUndefined)])
                \<or> (\<exists>rs. member_value (ps ! i) ''rates'' = JArr rs
                     \<and> list_all (\<lambda>r. \<not> nullish r) rs
                     \<and> member_value (qs ! i) ''rates'' = JObj [
                          (''dutchNationalMortgageGuarantee'',
                             (case find (\<lambda>r. member_value r ''type'' = JStr ''NHG'') rs of
                                None \<Rightarrow> JUndefined | Some r \<Rightarrow> member_value r ''value'')),
                          (''lifeTimeValue'',
                             JArr (map (\<lambda>r. JObj [(''range'', member_value r ''ltv''),
                                                    (''rate'', member_value r ''value'')])
                                    (filter (\<lambda>r. member_value r ''type'' = JStr ''LTV'') rs)))]))))"
proof -
  from calculateInterestRate_success_inv [OF assms]
  obtain r resp data where h: "schema args = Inr r"
     "fetch (interestRateFetch (r_product r) (r_type r) (discounts_or_empty r) (inactive_or_false r))
         = Inr resp"
     "resp_json resp = Inr data"
     "interestRateData rt (r_product r) (r_type r) (discounts_or_empty r) (inactive_or_false r) data
         = Inr d"
    by blast
  have "\<exists>qs. member_value d ''periods'' = JArr qs \<and> length qs = length ps
             \<and> (\<forall>i < length ps.
                  (nullish (member_value (ps ! i) ''rates'')
                     \<and> member_value (qs ! i) ''rates'' =
                         JObj [(''dutchNationalMortgageGuarantee'', JUndefined),
                               (''lifeTimeValue'', JUndefined)])
                \<or> (\<exists>rs. member_value (ps ! i) ''rates'' = JArr rs
                     \<and> list_all (\<lambda>r. \<not> nullish r) rs
                     \<and> member_value (qs ! i) ''rates'' = JObj [
                          (''dutchNationalMortgageGuarantee'',
                             (case find (\<lambda>r. member_value r ''type'' = JStr ''NHG'') rs of
                                None \<Rightarrow> JUndefined | Some r \<Rightarrow> member_value r ''value'')),
                          (''lifeTimeValue'',
                             JArr (map (\<lambda>r. JObj [(''range'', member_value r ''ltv''),
                                                    (''rate'', member_value r ''value'')])
                                    (filter (\<lambda>r. member_value r ''type'' = JStr ''LTV'') rs)))]))"
    if ps: "member_value data ''periods'' = JArr ps" for ps
  proof -
    from interestRateData_periods [OF h(4) ps] obtain qs
      where qs: "mapE (normalizePeriod rt) ps = Inr qs" and d: "member_value d ''periods'' = JArr qs"
      by blast
    from mapE_returns [OF qs] have len: "length qs = length ps"
      and each: "\<And>i. i < length ps \<Longrightarrow> normalizePeriod rt (ps ! i) = Inr (qs ! i)"
      by simp_all
    have "(nullish (member_value (ps ! i) ''rates'')
                     \<and> member_value (qs ! i) ''rates'' =
                         JObj [(''dutchNationalMortgageGuarantee'', JUndefined),
                               (''lifeTimeValue'', JUndefined)])
                \<or> (\<exists>rs. member_value (ps ! i) ''rates'' = JArr rs
                     \<and> list_all (\<lambda>r. \<not> nullish r) rs
                     \<and> member_value (qs ! i) ''rates'' = JObj [
                          (''dutchNationalMortgageGuarantee'',
                             (case find (\<lambda>r. member_value r ''type'' = JStr ''NHG'') rs of
                                None \<Rightarrow> JUndefined | Some r \<Rightarrow> member_value r ''value'')),
                          (''lifeTimeValue'',
                             JArr (map (\<lambda>r. JObj [(''range'', member_value r ''ltv''),
                                                    (''rate'', member_value r ''value'')])
                                    (filter (\<lambda>r. member_value r ''type'' = JStr ''LTV'') rs)))])"
      if i: "i < length ps" for i
      using normalizePeriod_rates_cases [OF each [OF i]] normalizePeriod_rates [OF each [OF i]]
      by blast
    with d len show ?thesis by blast
  qed
  with h(1,2,3) show ?thesis by blast
qed

text \<open>
  A payload with one period that has two entries tagged \<open>NHG\<close> and two tagged \<open>LTV\<close>:
  the first \<open>NHG\<close> value, and both \<open>LTV\<close> entries.
\<close>

theorem period_rates_witness:
  "snd (calculateInterestRate_part_000 sample_runtime
          (fetch_returning (json_response (JObj [(''periods'', JArr [sample_period])])))
          (JObj [(''product'', JStr ''BUDGET''), (''type'', JStr ''ANNUITAIR'')])) =
     success (JObj [
       (''bridgingCredit'', JObj [
          (''rate'', JUndefined), (''rateSheetDate'', JUndefined), (''options'', JUndefined)]),
       (''periods'', JArr [JObj [
          (''duration'', JNum (Fin 120)),
          (''durationInYears'', JNum (Fin 10)),
          (''inactive'', JBool False),
          (''type'', JStr ''VAST''),
          (''reflectionPeriod'', JNum (Fin 14)),
          (''rates'', JObj [
             (''dutchNationalMortgageGuarantee'', JNum (Fin (13 / 4))),
             (''lifeTimeValue'', JArr [
                JObj [(''range'', JStr ''80-90%''), (''rate'', JNum (Fin (7 / 2)))],
                JObj [(''range'', JStr ''90-100%''), (''rate'', JNum (Fin (15 / 4)))]])])]]),
       (''interestRate'', JUndefined),
       (''effectiveRate'', JUndefined),
       (''baseRate'', JUndefined),
       (''appliedDiscounts'', JUndefined),
       (''calculationDate'', JUndefined),
       (''requestParameters'', JObj [
          (''product'', JStr ''BUDGET''),
          (''type'', JStr ''ANNUITAIR''),
          (''discounts'', JArr []),
          (''inactive'', JBool False)])])"
  using period_rates [of InterestRateRequestSchema_part_000 sample_runtime
      "fetch_returning (json_response (JObj [(''periods'', JArr [sample_period])]))"
      "JObj [(''product'', JStr ''BUDGET''), (''type'', JStr ''ANNUITAIR'')]"
      "JObj [
       (''bridgingCredit'', JObj [
          (''rate'', JUndefined), (''rateSheetDate'', JUndefined), (''options'', JUndefined)]),
       (''periods'', JArr [JObj [
          (''duration'', JNum (Fin 120)),
          (''durationInYears'', JNum (Fin 10)),
          (''inactive'', JBool False),
          (''type'', JStr ''VAST''),
          (''reflectionPeriod'', JNum (Fin 14)),
          (''rates'', JObj [
             (''dutchNationalMortgageGuarantee'', JNum (Fin (13 / 4))),
             (''lifeTimeValue'', JArr [
                JObj [(''range'', JStr ''80-90%''), (''rate'', JNum (Fin (7 / 2)))],
                JObj [(''range'', JStr ''90-100%''), (''rate'', JNum (Fin (15 / 4)))]])])]]),
       (''interestRate'', JUndefined),
       (''effectiveRate'', JUndefined),
       (''baseRate'', JUndefined),
       (''appliedDiscounts'', JUndefined),
       (''calculationDate'', JUndefined),
       (''requestParameters'', JObj [
          (''product'', JStr ''BUDGET''),
          (''type'', JStr ''ANNUITAIR''),
          (''discounts'', JArr []),
          (''inactive'', JBool False)])]"]
  by (simp add: eval_defs sample_period_def sample_rates_def success_def years_120)

text \<open>
  The claim as first stated, a first \<open>NHG\<close> entry and a list of \<open>LTV\<close> entries for every
  period of the payload, fails in two ways. A \<open>null\<close> among the \<open>rates\<close> of one period
  makes the callback of \<open>filter\<close> throw, and the whole invocation returns the failure
  envelope, although an entry tagged \<open>NHG\<close> comes first. And for a period whose \<open>rates\<close>
  is \<open>null\<close> the member \<open>lifeTimeValue\<close> is \<open>undefined\<close>, not a list.
\<close>

theorem period_rates_counterexample:
  "snd (calculateInterestRate_part_000 sample_runtime
          (fetch_returning (json_response (JObj [(''periods'', JArr [JObj [
             (''duration'', JNum (Fin 120)),
             (''rates'', JArr [
                JObj [(''type'', JStr ''NHG''), (''value'', JNum (Fin (13 / 4)))],
                JNull])]])])))
          (JObj [(''product'', JStr ''BUDGET''), (''type'', JStr ''ANNUITAIR'')])) =
     failure ''Failed to calculate interest rate: '' (Error ''Cannot read properties'')
   \<and> member_value (element (member_value (envelope_data (snd
      (calculateInterestRate_part_000 sample_runtime
         (fetch_returning (json_response (JObj [(''periods'', JArr [JObj [
             (''duration'', JNum (Fin 120)), (''rates'', JNull)]])])))
         (JObj [(''product'', JStr ''BUDGET''), (''type'', JStr ''ANNUITAIR'')]))))
      ''periods'') 0) ''rates''
     = JObj [(''dutchNationalMortgageGuarantee'', JUndefined), (''lifeTimeValue'', JUndefined)]"
  by (simp add: eval_defs envelope_data_def element_def success_def years_120 hasType_def getProp_def
      sample_runtime_def)




section \<open>The maximum-mortgage tool: the result\<close>

lemma maximumMortgageData_defined:
  "\<not> nullish data \<Longrightarrow>
   maximumMortgageData rt mainIncome partnerIncome data =
     Inr (JObj [
       (''maximumMortgage'', or_else (member_value (member_value data ''value'') ''maximumMortgage'') JNull),
       (''monthlyPayment'', or_else (member_value (member_value data ''value'') ''monthlyPayment'') JNull),
       (''interest'', or_else (member_value (member_value data ''value'') ''interest'') JNull),
       (''messages'', member_value data ''messages''),
       (''requestParameters'', JObj [
          (''mainIncome'', JNum mainIncome),
          (''partnerIncome'', (case partnerIncome of None \<Rightarrow> JUndefined | Some p \<Rightarrow> JNum p))])])"
  by (simp add: maximumMortgageData_def)

lemma maximumMortgageData_nullish:
  "nullish data \<Longrightarrow> maximumMortgageData rt mainIncome partnerIncome data =
     Inl (Error (typeErrorMessage rt data ''value''))"
  by (simp add: maximumMortgageData_def getProp_def)

text \<open>
  C5. On a successful response whose payload is not \<open>null\<close>, the \<open>data\<close> of the envelope
  holds \<open>maximumMortgage\<close>, \<open>monthlyPayment\<close> and \<open>interest\<close>, each the member of the
  payload's \<open>value\<close> when that member is truthy and \<open>null\<close> when it is absent or falsy
  (\<open>or_else v JNull\<close> is \<open>v || null\<close>), the payload's \<open>messages\<close> as they are, and the
  validated \<open>mainIncome\<close> and \<open>partnerIncome\<close>.
\<close>

theorem maximumMortgage_success:
  assumes "MaximumMortgageRequestSchema args = Inr r"
    and "fetch (maximumMortgageFetch rt (r_mainIncome r) (r_partnerIncome r)) = Inr resp"
    and "resp_ok resp"
    and "resp_json resp = Inr data"
    and "\<not> nullish data"
  shows "snd (calculateMaximumMortgage rt fetch args) =
     success (JObj [
       (''maximumMortgage'', or_else (member_value (member_value data ''value'') ''maximumMortgage'') JNull),
       (''monthlyPayment'', or_else (member_value (member_value data ''value'') ''monthlyPayment'') JNull),
       (''interest'', or_else (member_value (member_value data ''value'') ''interest'') JNull),
       (''messages'', member_value data ''messages''),
       (''requestParameters'', JObj [
          (''mainIncome'', JNum (r_mainIncome r)),
          (''partnerIncome'', (case r_partnerIncome r of None \<Rightarrow> JUndefined | Some p \<Rightarrow> JNum p))])])"
  using assms
  by (simp add: calculateMaximumMortgage_def parse_def maximumMortgageResponse_def
      maximumMortgageData_defined Let_def)

text \<open>A payload with a truthy, a zero and a fractional member.\<close>

theorem maximumMortgage_success_witness:
  "snd (calculateMaximumMortgage sample_runtime
          (fetch_returning (json_response (JObj [
             (''value'', JObj [(''maximumMortgage'', JNum (Fin 280000)),
                               (''monthlyPayment'', JNum (Fin 0)),
                               (''interest'', JNum (Fin (7 / 2)))]),
             (''messages'', JArr [JStr ''Calculation completed successfully''])])))
          (JObj [(''mainIncome'', JNum (Fin 50000)), (''partnerIncome'', JNum (Fin 30000))])) =
     success (JObj [
       (''maximumMortgage'', JNum (Fin 280000)),
       (''monthlyPayment'', JNull),
       (''interest'', JNum (Fin (7 / 2))),
       (''messages'', JArr [JStr ''Calculation completed successfully'']),
       (''requestParameters'', JObj [(''mainIncome'', JNum (Fin 50000)),
                                     (''partnerIncome'', JNum (Fin 30000))])])"
  using maximumMortgage_success [of
      "JObj [(''mainIncome'', JNum (Fin 50000)), (''partnerIncome'', JNum (Fin 30000))]"
      "\<lparr> r_mainIncome = Fin 50000, r_partnerIncome = Some (Fin 30000) \<rparr>"
      "fetch_returning (json_response (JObj [
             (''value'', JObj [(''maximumMortgage'', JNum (Fin 280000)),
                               (''monthlyPayment'', JNum (Fin 0)),
                               (''interest'', JNum (Fin (7 / 2)))]),
             (''messages'', JArr [JStr ''Calculation completed successfully''])]))"
      sample_runtime
      "json_response (JObj [
             (''value'', JObj [(''maximumMortgage'', JNum (Fin 280000)),
                               (''monthlyPayment'', JNum (Fin 0)),
                               (''interest'', JNum (Fin (7 / 2)))]),
             (''messages'', JArr [JStr ''Calculation completed successfully''])])"
      "JObj [
             (''value'', JObj [(''maximumMortgage'', JNum (Fin 280000)),
                               (''monthlyPayment'', JNum (Fin 0)),
                               (''interest'', JNum (Fin (7 / 2)))]),
             (''messages'', JArr [JStr ''Calculation completed successfully''])]"]
  by (simp add: MaximumMortgageRequestSchema_def schema_defs
      fetch_returning_def json_response_def or_else_def falsy_def Let_def)

text \<open>
  The claim as first stated, each field equal to the provider's value whenever it is
  present, fails for a provider's \<open>maximumMortgage\<close> of 0.
\<close>

theorem maximumMortgage_zero_counterexample:
  "snd (calculateMaximumMortgage sample_runtime
          (fetch_returning (json_response (JObj [
             (''value'', JObj [(''maximumMortgage'', JNum (Fin 0)),
                               (''monthlyPayment'', JNum (Fin 0)),
                               (''interest'', JNum (Fin (7 / 2)))]),
             (''messages'', JArr [])])))
          (JObj [(''mainIncome'', JNum (Fin 0))])) =
     success (JObj [
       (''maximumMortgage'', JNull),
       (''monthlyPayment'', JNull),
       (''interest'', JNum (Fin (7 / 2))),
       (''messages'', JArr []),
       (''requestParameters'', JObj [(''mainIncome'', JNum (Fin 0)), (''partnerIncome'', JUndefined)])])
   \<and> member_value (envelope_data (snd (calculateMaximumMortgage sample_runtime
          (fetch_returning (json_response (JObj [
             (''value'', JObj [(''maximumMortgage'', JNum (Fin 0)),
                               (''monthlyPayment'', JNum (Fin 0)),
                               (''interest'', JNum (Fin (7 / 2)))]),
             (''messages'', JArr [])])))
          (JObj [(''mainIncome'', JNum (Fin 0))])))) ''maximumMortgage''
   \<noteq> JNum (Fin 0)"
  by (simp add: calculateMaximumMortgage_def MaximumMortgageRequestSchema_def schema_defs
      fetch_returning_def json_response_def maximumMortgageResponse_def maximumMortgageData_def
      or_else_def falsy_def Let_def envelope_data_def success_def)

lemma calculateMaximumMortgage_success_inv:
  assumes "snd (calculateMaximumMortgage rt fetch args) = success d"
  shows "\<exists>r resp data. MaximumMortgageRequestSchema args = Inr r
     \<and> fetch (maximumMortgageFetch rt (r_mainIncome r) (r_partnerIncome r)) = Inr resp
     \<and> resp_ok resp \<and> resp_json resp = Inr data \<and> \<not> nullish data
     \<and> maximumMortgageData rt (r_mainIncome r) (r_partnerIncome r) data = Inr d"
proof (cases "MaximumMortgageRequestSchema args")
  case (Inl issues)
  with assms show ?thesis by (simp add: calculateMaximumMortgage_def parse_def)
next
  case (Inr r)
  show ?thesis
  proof (cases "fetch (maximumMortgageFetch rt (r_mainIncome r) (r_partnerIncome r))")
    case (Inl e)
    with Inr assms show ?thesis by (simp add: calculateMaximumMortgage_def parse_def Let_def)
  next
    case resp: (Inr resp)
    show ?thesis
    proof (cases "resp_ok resp")
      case False
      with Inr resp assms show ?thesis
        by (cases "resp_text resp")
           (simp_all add: calculateMaximumMortgage_def parse_def Let_def maximumMortgageResponse_def)
    next
      case True
      show ?thesis
      proof (cases "resp_json resp")
        case (Inl e)
        with True Inr resp assms show ?thesis
          by (simp add: calculateMaximumMortgage_def parse_def Let_def maximumMortgageResponse_def)
      next
        case data: (Inr data)
        show ?thesis
        proof (cases "nullish data")
          case n: True
          with data True Inr resp assms show ?thesis
            by (simp add: calculateMaximumMortgage_def parse_def Let_def maximumMortgageResponse_def
                maximumMortgageData_nullish)
        next
          case n: False
          with data True Inr resp assms show ?thesis
            by (simp add: calculateMaximumMortgage_def parse_def Let_def maximumMortgageResponse_def
                maximumMortgageData_defined)
        qed
      qed
    qed
  qed
qed

lemma or_else_JNull_nonzero: "or_else v JNull \<noteq> JNum (Fin 0)"
  by (cases v) (simp_all add: or_else_def falsy_def)

text \<open>
  C10. In every successful result of the maximum-mortgage tool, each of \<open>maximumMortgage\<close>,
  \<open>monthlyPayment\<close> and \<open>interest\<close> is \<open>null\<close> when the provider's member is falsy,
  the number 0 included, and the provider's member otherwise; none of them is ever 0.
\<close>

theorem maximumMortgage_falsy_is_null:
  assumes "snd (calculateMaximumMortgage rt fetch args) = success d"
    and "k \<in> {''maximumMortgage'', ''monthlyPayment'', ''interest''}"
  shows "member_value d k \<noteq> JNum (Fin 0)
     \<and> (\<exists>r resp data. MaximumMortgageRequestSchema args = Inr r
           \<and> fetch (maximumMortgageFetch rt (r_mainIncome r) (r_partnerIncome r)) = Inr resp
           \<and> resp_json resp = Inr data
           \<and> member_value d k =
               (if falsy (member_value (member_value data ''value'') k) then JNull
                else member_value (member_value data ''value'') k))"
proof -
  from calculateMaximumMortgage_success_inv [OF assms(1)]
  obtain r resp data where h: "MaximumMortgageRequestSchema args = Inr r"
     "fetch (maximumMortgageFetch rt (r_mainIncome r) (r_partnerIncome r)) = Inr resp"
     "resp_json resp = Inr data" "\<not> nullish data"
     "maximumMortgageData rt (r_mainIncome r) (r_partnerIncome r) data = Inr d"
    by blast
  from h(4,5) have d: "d = JObj [
       (''maximumMortgage'', or_else (member_value (member_value data ''value'') ''maximumMortgage'') JNull),
       (''monthlyPayment'', or_else (member_value (member_value data ''value'') ''monthlyPayment'') JNull),
       (''interest'', or_else (member_value (member_value data ''value'') ''interest'') JNull),
       (''messages'', member_value data ''messages''),
       (''requestParameters'', JObj [
          (''mainIncome'', JNum (r_mainIncome r)),
          (''partnerIncome'', (case r_partnerIncome r of None \<Rightarrow> JUndefined | Some p \<Rightarrow> JNum p))])]"
    by (simp add: maximumMortgageData_defined)
  from assms(2) have k: "member_value d k = or_else (member_value (member_value data ''value'') k) JNull"
    unfolding d by auto
  have "member_value d k \<noteq> JNum (Fin 0)" unfolding k by (rule or_else_JNull_nonzero)
  moreover have "member_value d k =
               (if falsy (member_value (member_value data ''value'') k) then JNull
                else member_value (member_value data ''value'') k)"
    unfolding k by (simp add: or_else_def)
  ultimately show ?thesis using h(1,2,3) by blast
qed

text \<open>A provider's \<open>maximumMortgage\<close> of 0 comes back as \<open>null\<close>.\<close>

theorem maximumMortgage_falsy_is_null_witness:
  "snd (calculateMaximumMortgage sample_runtime
          (fetch_returning (json_response (JObj [(''value'', JObj [(''maximumMortgage'', JNum (Fin 0))])])))
          (JObj [(''mainIncome'', JNum (Fin 0))])) =
     success (JObj [
       (''maximumMortgage'', JNull),
       (''monthlyPayment'', JNull),
       (''interest'', JNull),
       (''messages'', JUndefined),
       (''requestParameters'', JObj [(''mainIncome'', JNum (Fin 0)), (''partnerIncome'', JUndefined)])])
   \<and> JNull \<noteq> JNum (Fin 0)"
  using maximumMortgage_falsy_is_null [of sample_runtime
      "fetch_returning (json_response (JObj [(''value'', JObj [(''maximumMortgage'', JNum (Fin 0))])]))"
      "JObj [(''mainIncome'', JNum (Fin 0))]"
      "JObj [
       (''maximumMortgage'', JNull),
       (''monthlyPayment'', JNull),
       (''interest'', JNull),
       (''messages'', JUndefined),
       (''requestParameters'', JObj [(''mainIncome'', JNum (Fin 0)), (''partnerIncome'', JUndefined)])]"
      "''maximumMortgage''"]
  by (simp add: calculateMaximumMortgage_def MaximumMortgageRequestSchema_def schema_defs
      fetch_returning_def json_response_def maximumMortgageResponse_def maximumMortgageData_def
      or_else_def falsy_def Let_def)

section \<open>The envelope of the two network tools\<close>

text \<open>
  Both network tools return one of the two envelopes whatever the input, the outcome of
  \<open>fetch\<close> and the payload: every throw inside their \<open>try\<close> block is caught.
\<close>

lemma calculateInterestRate_envelope:
  "\<exists>d e. snd (calculateInterestRate_with schema rt fetch args) = success d
       \<or> snd (calculateInterestRate_with schema rt fetch args) =
            failure ''Failed to calculate interest rate: '' e"
  by (auto simp: calculateInterestRate_with_def Let_def interestRateResponse_def bindE_def
      split: sum.splits)

lemma calculateMaximumMortgage_envelope:
  "\<exists>d e. snd (calculateMaximumMortgage rt fetch args) = success d
       \<or> snd (calculateMaximumMortgage rt fetch args) =
            failure ''Failed to calculate maximum mortgage: '' e"
  by (auto simp: calculateMaximumMortgage_def Let_def maximumMortgageResponse_def bindE_def
      split: sum.splits)

text \<open>The two fixed facts are success envelopes.\<close>

lemma fixed_facts_envelopes:
  "\<exists>d. getMortageInterestRateDeduction = success d"
  "\<exists>d. getMaximumMortageNationalHomeGuarantee = success d"
  by (simp_all add: getMortageInterestRateDeduction_def getMaximumMortageNationalHomeGuarantee_def)

text \<open>A response that is not \<open>ok\<close> is reported with its status and body text.\<close>

lemma calculateInterestRate_http_failure:
  assumes "schema args = Inr r"
    and "fetch (interestRateFetch (r_product r) (r_type r) (discounts_or_empty r) (inactive_or_false r))
         = Inr resp"
    and "\<not> resp_ok resp" and "resp_text resp = Inr errorText"
  shows "snd (calculateInterestRate_with schema rt fetch args) =
     failure ''Failed to calculate interest rate: ''
       (Error (''ABN AMRO API error ('' @ string_of_nat (resp_status resp) @ ''): '' @ errorText))"
  using assms
  by (simp add: calculateInterestRate_with_def parse_def Let_def interestRateResponse_def
      apiError_def)

end
